theory Spec2Isabelle
  imports Complex_Main "HOL-Library.AList" "HOL-Library.Sublist"
begin

section \<open>Conventions of the embedding\<close>

text \<open>
  The repository is a Python pipeline: \<^verbatim>\<open>DataProcessor\<close> (src/data/processors.py),
  \<^verbatim>\<open>FeatureEngineer\<close> (src/features/engineering.py), \<^verbatim>\<open>ModelTrainer\<close>
  (src/models/trainer.py), \<^verbatim>\<open>PlacementPredictor\<close> (src/models/predictor.py) and
  \<^verbatim>\<open>ModelValidator\<close> (src/validation/validator.py).

  \<^item> Python floats are modelled as \<^typ>\<open>real\<close>: rounding error, nan and inf are outside the
    model. Python ints are \<^typ>\<open>int\<close>, lengths and loop indices \<^typ>\<open>nat\<close>.
  \<^item> An exception is a value \<open>Inl e\<close> of \<open>error + 'a\<close>. Every division whose divisor
    is not a numeric literal goes through \<open>truediv\<close>, which raises on a zero divisor, so
    that a guard of the source is needed in the model too.
  \<^item> Calls into scikit-learn (imputer, scaler, cross-validation, fit, predict) are
    parameters of the functions that make them.
  \<^item> \<^verbatim>\<open>datetime.now()\<close> is an explicit clock reading.
\<close>

datatype error =
  ZeroDivisionError | ValueError | IndexError | KeyError | NotFittedError

definition bind_result :: "error + 'a \<Rightarrow> ('a \<Rightarrow> error + 'b) \<Rightarrow> error + 'b" where
  "bind_result r f = (case r of Inl e \<Rightarrow> Inl e | Inr v \<Rightarrow> f v)"

text \<open>Python's \<^verbatim>\<open>a / b\<close>.\<close>

definition truediv :: "real \<Rightarrow> real \<Rightarrow> error + real" where
  "truediv a b = (if b = 0 then Inl ZeroDivisionError else Inr (a / b))"

section \<open>Domain entities (src/domain/entities.py)\<close>

text \<open>
  A \<^verbatim>\<open>datetime\<close> is a count of microseconds; \<^verbatim>\<open>(a - b).days\<close> is the floor of the
  difference in days, as \<^verbatim>\<open>timedelta\<close> normalises it.
\<close>

type_synonym datetime = int

definition timedelta_days :: "datetime \<Rightarrow> datetime \<Rightarrow> int" where
  "timedelta_days a b = (a - b) div 86400000000"

record player =
  player_id :: string
  player_name :: string
  role :: string
  stats :: "string \<rightharpoonup> real"

text \<open>
  An entry of \<^verbatim>\<open>recent_matches\<close> is a dict. The processor reads \<^verbatim>\<open>match['result']\<close> and
  \<^verbatim>\<open>match['opponent']\<close> by subscript and \<^verbatim>\<open>m.get('event', '')\<close> with a default, so the
  first two are fields and the event label is optional.
\<close>

record match_dict =
  opponent :: string
  result :: string
  date :: datetime
  event :: "string option"

text \<open>
  \<^verbatim>\<open>Team\<close>; \<^verbatim>\<open>formed_date\<close> is \<open>None\<close> when the date is unknown (the test
  \<^verbatim>\<open>if not team.formed_date\<close>). The field \<^verbatim>\<open>events\<close> is read nowhere in the pipeline
  and is left out.
\<close>

record team =
  team_ident :: string
  team_name :: string
  team_region :: string
  players :: "player list"
  formed_date :: "datetime option"
  recent_matches :: "match_dict list"

text \<open>
  The nine numeric predictors, which are also the nine columns of the data frame that
  \<^verbatim>\<open>prepare_features\<close> builds; \<^verbatim>\<open>TrainingFeatures\<close> adds the team id and the target.
\<close>

record feature_row =
  roster_stability :: real
  avg_player_rating :: real
  avg_acs :: real
  avg_kdr :: real
  avg_kast :: real
  win_rate :: real
  recent_form :: real
  strength_of_schedule :: real
  tournament_results :: real

record training_features = feature_row +
  team_id :: string
  target :: "int option"

section \<open>Feature extraction (src/data/processors.py)\<close>

text \<open>The dicts returned by the two performance calculations, one field per key.\<close>

record individual_perf =
  ip_avg_rating :: real
  ip_avg_acs :: real
  ip_avg_kdr :: real
  ip_avg_kast :: real

record team_perf =
  tp_win_rate :: real
  tp_recent_form :: real
  tp_strength_of_schedule :: real

definition calculate_roster_stability :: "datetime \<Rightarrow> team \<Rightarrow> error + real" where
  "calculate_roster_stability now t =
     (case formed_date t of
        None \<Rightarrow> Inr 0.5
      | Some fd \<Rightarrow>
          (let days_together = timedelta_days now fd;
               max_days = 365
           in bind_result (truediv (real_of_int days_together) max_days) (\<lambda>q.
                let stability = min q 1.0;
                    roster_completeness = real (length (players t)) / 5
                in Inr (stability * roster_completeness))))"

text \<open>\<^verbatim>\<open>player.stats.get(key, 0)\<close>\<close>

definition stats_get :: "player \<Rightarrow> string \<Rightarrow> real" where
  "stats_get p k = (case stats p k of None \<Rightarrow> 0 | Some v \<Rightarrow> v)"

definition calculate_individual_performance :: "team \<Rightarrow> error + individual_perf" where
  "calculate_individual_performance t =
     (if players t = [] then
        Inr \<lparr>ip_avg_rating = 0.0, ip_avg_acs = 0.0, ip_avg_kdr = 0.0, ip_avg_kast = 0.0\<rparr>
      else
        (let total_rating = (\<Sum>p\<leftarrow>players t. stats_get p ''rating'');
             total_acs = (\<Sum>p\<leftarrow>players t. stats_get p ''acs'');
             total_kdr = (\<Sum>p\<leftarrow>players t. stats_get p ''kdr'');
             total_kast = (\<Sum>p\<leftarrow>players t. stats_get p ''kast'');
             num_players = real (length (players t))
         in bind_result (truediv total_rating num_players) (\<lambda>r.
            bind_result (truediv total_acs num_players) (\<lambda>a.
            bind_result (truediv total_kdr num_players) (\<lambda>k.
            bind_result (truediv total_kast num_players) (\<lambda>s.
              Inr \<lparr>ip_avg_rating = r, ip_avg_acs = a, ip_avg_kdr = k, ip_avg_kast = s\<rparr>))))))"

text \<open>
  The loop over \<^verbatim>\<open>enumerate(team.recent_matches[:6])\<close>; the accumulator is
  \<open>(recent_form, form_weight)\<close>.
\<close>

fun form_loop :: "nat \<Rightarrow> match_dict list \<Rightarrow> real \<times> real \<Rightarrow> error + real \<times> real" where
  "form_loop i [] acc = Inr acc"
| "form_loop i (m # ms) (form, form_weight) =
     bind_result (truediv 1.0 (real (i + 1))) (\<lambda>weight.
       form_loop (i + 1) ms
         (form + weight * (if result m = ''win'' then 1.0 else 0.0),
          form_weight + weight))"

definition strong_opponents :: "string list" where
  "strong_opponents = [''G2 Gozen'', ''Team Liquid Brazil'', ''Shopify Rebellion Gold'']"

text \<open>
  The local \<^verbatim>\<open>strength_of_schedule\<close> of \<^verbatim>\<open>calculate_team_performance\<close>, before the
  final \<^verbatim>\<open>min(strength_of_schedule, 1.0)\<close>.
\<close>

definition schedule_strength :: "match_dict list \<Rightarrow> error + real" where
  "schedule_strength ms =
     (let strong_opponent_matches = length (filter (\<lambda>m. opponent m \<in> set strong_opponents) ms);
          total_matches = length ms
      in if total_matches > 0 then
           bind_result (truediv (real strong_opponent_matches) (real total_matches)) (\<lambda>q.
             Inr (0.5 + q * 0.3))
         else Inr (0.5 + 0))"

definition calculate_team_performance :: "team \<Rightarrow> error + team_perf" where
  "calculate_team_performance t =
     (if recent_matches t = [] then
        Inr \<lparr>tp_win_rate = 0.5, tp_recent_form = 0.5, tp_strength_of_schedule = 0.5\<rparr>
      else
        (let wins = length (filter (\<lambda>m. result m = ''win'') (recent_matches t));
             total_matches = length (recent_matches t)
         in bind_result
              (if total_matches > 0 then truediv (real wins) (real total_matches) else Inr 0.5)
            (\<lambda>win_rate.
            bind_result (form_loop 0 (take 6 (recent_matches t)) (0.0, 0.0))
            (\<lambda>(recent_form, form_weight).
            bind_result
              (if form_weight > 0 then truediv recent_form form_weight else Inr win_rate)
            (\<lambda>recent_form.
            bind_result (schedule_strength (recent_matches t))
            (\<lambda>strength_of_schedule.
              Inr \<lparr>tp_win_rate = win_rate, tp_recent_form = recent_form,
                   tp_strength_of_schedule = min strength_of_schedule 1.0\<rparr>))))))"

text \<open>\<^verbatim>\<open>'Game Changers' in m.get('event', '')\<close> is a test for a contiguous substring.\<close>

definition is_gc_match :: "match_dict \<Rightarrow> bool" where
  "is_gc_match m =
     sublist ''Game Changers'' (case event m of None \<Rightarrow> '''' | Some e \<Rightarrow> e)"

definition calculate_tournament_performance :: "team \<Rightarrow> error + real" where
  "calculate_tournament_performance t =
     (if recent_matches t = [] then Inr 0.5
      else
        (let gc_matches = filter is_gc_match (recent_matches t)
         in if gc_matches = [] then Inr 0.5
            else
              (let gc_wins = length (filter (\<lambda>m. result m = ''win'') gc_matches)
               in truediv (real gc_wins) (real (length gc_matches)))))"

text \<open>
  The body of the loop of \<^verbatim>\<open>extract_features\<close> for one team; \<open>now\<close> is what
  \<^verbatim>\<open>datetime.now()\<close> returns during that iteration.
\<close>

definition extract_team_features :: "datetime \<Rightarrow> team \<Rightarrow> error + training_features" where
  "extract_team_features now t =
     bind_result (calculate_roster_stability now t) (\<lambda>stability.
     bind_result (calculate_individual_performance t) (\<lambda>individual_perf.
     bind_result (calculate_team_performance t) (\<lambda>team_perf.
     bind_result (calculate_tournament_performance t) (\<lambda>tournament_perf.
       Inr \<lparr>roster_stability = stability,
            avg_player_rating = ip_avg_rating individual_perf,
            avg_acs = ip_avg_acs individual_perf,
            avg_kdr = ip_avg_kdr individual_perf,
            avg_kast = ip_avg_kast individual_perf,
            win_rate = tp_win_rate team_perf,
            recent_form = tp_recent_form team_perf,
            strength_of_schedule = tp_strength_of_schedule team_perf,
            tournament_results = tournament_perf,
            team_id = team_ident t,
            target = None\<rparr>))))"

text \<open>
  \<^verbatim>\<open>extract_features(teams)\<close>: the clock is read once per team, \<open>clock i\<close> being the
  reading while the team at position \<open>i\<close> is processed.
\<close>

fun extract_loop :: "(nat \<Rightarrow> datetime) \<Rightarrow> nat \<Rightarrow> team list \<Rightarrow> error + training_features list" where
  "extract_loop clock i [] = Inr []"
| "extract_loop clock i (t # ts) =
     bind_result (extract_team_features (clock i) t) (\<lambda>feature_set.
     bind_result (extract_loop clock (i + 1) ts) (\<lambda>features.
       Inr (feature_set # features)))"

definition extract_features :: "(nat \<Rightarrow> datetime) \<Rightarrow> team list \<Rightarrow> error + training_features list" where
  "extract_features clock teams = extract_loop clock 0 teams"

section \<open>The scikit-learn interface\<close>

text \<open>
  The library calls the pipeline makes, as parameters. \<open>'i\<close>, \<open>'s\<close> and \<open>'m\<close> are the
  states of an imputer, a scaler and a regression model; a numeric matrix is a list of rows.
  A call returns its value or the exception it raises. \<^verbatim>\<open>model.fit\<close> mutates the model
  also when it raises, so \<open>model_fit\<close> returns the model's state afterwards together
  with the exception, if any. \<^verbatim>\<open>cross_val_score\<close> works on clones of the model.
\<close>

type_synonym matrix = "real list list"

record ('i, 's, 'm) sklearn =
  imputer_fit_transform :: "'i \<Rightarrow> feature_row list \<Rightarrow> error + 'i \<times> matrix"
  imputer_transform :: "'i \<Rightarrow> feature_row list \<Rightarrow> error + matrix"
  scaler_fit_transform :: "'s \<Rightarrow> matrix \<Rightarrow> error + 's \<times> matrix"
  scaler_transform :: "'s \<Rightarrow> matrix \<Rightarrow> error + matrix"
  cross_val_score :: "'m \<Rightarrow> matrix \<Rightarrow> real list \<Rightarrow> nat \<Rightarrow> error + real list"
  model_fit :: "'m \<Rightarrow> matrix \<Rightarrow> real list \<Rightarrow> error option \<times> 'm"
  model_predict :: "'m \<Rightarrow> matrix \<Rightarrow> error + real list"

text \<open>
  \<^verbatim>\<open>numpy\<close>'s \<^verbatim>\<open>mean\<close> and \<^verbatim>\<open>std\<close> of a one-dimensional array. On an empty array numpy
  yields nan, which has no counterpart in \<^typ>\<open>real\<close>: the model reports the zero divisor.
\<close>

definition np_mean :: "real list \<Rightarrow> error + real" where
  "np_mean xs = truediv (sum_list xs) (real (length xs))"

definition np_std :: "real list \<Rightarrow> error + real" where
  "np_std xs =
     bind_result (np_mean xs) (\<lambda>mu.
     bind_result (np_mean (map (\<lambda>x. (x - mu)\<^sup>2) xs)) (\<lambda>v. Inr (sqrt v)))"

section \<open>Feature engineering (src/features/engineering.py)\<close>

record ('i, 's) feature_engineer =
  scaler :: 's
  imputer :: 'i
  is_fitted :: bool

text \<open>
  \<^verbatim>\<open>prepare_features\<close> returns the data frame (one \<^typ>\<open>feature_row\<close> per team, the nine
  columns in the source's order) and the scaled matrix; the engineer's new state is
  returned with them.
\<close>

definition prepare_features ::
  "('i, 's, 'm) sklearn \<Rightarrow> ('i, 's) feature_engineer \<Rightarrow> training_features list \<Rightarrow> bool
     \<Rightarrow> error + ('i, 's) feature_engineer \<times> feature_row list \<times> matrix" where
  "prepare_features lib self features fit_scaler =
     (let df = map (\<lambda>feature.
                 \<lparr>roster_stability = roster_stability feature,
                  avg_player_rating = avg_player_rating feature,
                  avg_acs = avg_acs feature,
                  avg_kdr = avg_kdr feature,
                  avg_kast = avg_kast feature,
                  win_rate = win_rate feature,
                  recent_form = recent_form feature,
                  strength_of_schedule = strength_of_schedule feature,
                  tournament_results = tournament_results feature\<rparr>) features
      in if fit_scaler \<or> \<not> is_fitted self then
           bind_result (imputer_fit_transform lib (imputer self) df) (\<lambda>(imputer', df_imputed).
           bind_result (scaler_fit_transform lib (scaler self) df_imputed) (\<lambda>(scaler', df_scaled).
             Inr (self\<lparr>scaler := scaler', imputer := imputer', is_fitted := True\<rparr>,
                  df, df_scaled)))
         else
           bind_result (imputer_transform lib (imputer self) df) (\<lambda>df_imputed.
           bind_result (scaler_transform lib (scaler self) df_imputed) (\<lambda>df_scaled.
             Inr (self, df, df_scaled))))"

record composite_row = feature_row +
  stability_performance :: real
  form_consistency :: real
  individual_skill :: real
  tournament_impact :: real
  team_strength_index :: real

text \<open>
  \<^verbatim>\<open>create_composite_features\<close>: the column arithmetic of pandas is elementwise, so each
  row of the result is computed from the same row of \<^verbatim>\<open>df\<close>.
\<close>

definition composite_of_row :: "feature_row \<Rightarrow> composite_row" where
  "composite_of_row r =
     (let stability_performance = roster_stability r * avg_player_rating r;
          form_consistency = win_rate r * recent_form r;
          individual_skill =
            (avg_player_rating r * 0.4 + avg_acs r * 0.2 + avg_kdr r * 0.2 + avg_kast r * 0.2) / 200;
          tournament_impact = tournament_results r * strength_of_schedule r;
          team_strength_index =
            individual_skill * 0.3 + win_rate r * 0.25 + recent_form r * 0.2 +
            roster_stability r * 0.15 + tournament_impact * 0.1
      in \<lparr>roster_stability = roster_stability r,
          avg_player_rating = avg_player_rating r,
          avg_acs = avg_acs r,
          avg_kdr = avg_kdr r,
          avg_kast = avg_kast r,
          win_rate = win_rate r,
          recent_form = recent_form r,
          strength_of_schedule = strength_of_schedule r,
          tournament_results = tournament_results r,
          stability_performance = stability_performance,
          form_consistency = form_consistency,
          individual_skill = individual_skill,
          tournament_impact = tournament_impact,
          team_strength_index = team_strength_index\<rparr>)"

definition create_composite_features :: "feature_row list \<Rightarrow> composite_row list" where
  "create_composite_features df = map composite_of_row df"

section \<open>Model training (src/models/trainer.py)\<close>

text \<open>
  \<^verbatim>\<open>self.models\<close> and \<^verbatim>\<open>results\<close> are dicts; Python keeps their insertion order, so
  they are association lists and an assignment \<^verbatim>\<open>d[k] = v\<close> is \<^const>\<open>AList.update\<close>.
\<close>

record 'm cv_result =
  cv_mae_mean :: real
  cv_mae_std :: real
  model :: 'm

record 'm model_trainer =
  models :: "(string \<times> 'm) list"
  best_model :: "'m option"
  best_model_name :: "string option"
  is_trained :: bool

text \<open>\<^verbatim>\<open>ModelTrainer.__init__\<close>, from the three estimators it constructs.\<close>

definition init_trainer :: "'m \<Rightarrow> 'm \<Rightarrow> 'm \<Rightarrow> 'm model_trainer" where
  "init_trainer random_forest gradient_boosting ridge =
     \<lparr>models = [(''random_forest'', random_forest),
                (''gradient_boosting'', gradient_boosting),
                (''ridge'', ridge)],
      best_model = None, best_model_name = None, is_trained = False\<rparr>"

text \<open>
  The loop \<^verbatim>\<open>for name, model in self.models.items()\<close> of \<^verbatim>\<open>train_models\<close>. It returns
  \<^verbatim>\<open>results\<close> or the exception that ended it, and the items of \<^verbatim>\<open>self.models\<close> as the
  loop leaves them. \<^verbatim>\<open>results[name]['model']\<close> is the object that \<^verbatim>\<open>model.fit\<close> then
  mutates, so the entry holds the fitted model.
\<close>

fun train_loop ::
  "('i, 's, 'm) sklearn \<Rightarrow> (string \<times> 'm) list \<Rightarrow> matrix \<Rightarrow> real list
     \<Rightarrow> (string \<times> 'm cv_result) list
     \<Rightarrow> (error + (string \<times> 'm cv_result) list) \<times> (string \<times> 'm) list" where
  "train_loop lib [] X y results = (Inr results, [])"
| "train_loop lib ((name, m) # rest) X y results =
     (let cv_folds = min 3 (length X)
      in case cross_val_score lib m X y cv_folds of
           Inl e \<Rightarrow> (Inl e, (name, m) # rest)
         | Inr cv_scores \<Rightarrow>
             (case bind_result (np_mean cv_scores) (\<lambda>mean.
                   bind_result (np_std cv_scores) (\<lambda>std. Inr (mean, std))) of
                Inl e \<Rightarrow> (Inl e, (name, m) # rest)
              | Inr (mean, std) \<Rightarrow>
                  (case model_fit lib m X y of
                     (Some e, m') \<Rightarrow> (Inl e, (name, m') # rest)
                   | (None, m') \<Rightarrow>
                       (let results' = AList.update name
                              \<lparr>cv_mae_mean = - mean, cv_mae_std = std, model = m'\<rparr> results;
                            (r, rest') = train_loop lib rest X y results'
                        in (r, (name, m') # rest')))))"

text \<open>
  Python's \<^verbatim>\<open>min(iterable, key=...)\<close>: the first element with the least key;
  \<^verbatim>\<open>ValueError\<close> on an empty iterable.
\<close>

fun min_by_key :: "('a \<Rightarrow> real) \<Rightarrow> 'a list \<Rightarrow> error + 'a" where
  "min_by_key key [] = Inl ValueError"
| "min_by_key key (x # xs) =
     Inr (fold (\<lambda>item best. if key item < key best then item else best) xs x)"

text \<open>
  \<^verbatim>\<open>train_models\<close> returns its value and the trainer's new state. The keys of
  \<^verbatim>\<open>results\<close> are pairwise distinct, so \<^verbatim>\<open>min\<close> over the keys with the key function
  \<^verbatim>\<open>results[x]['cv_mae_mean']\<close> is \<open>min_by_key\<close> over the items.
\<close>

definition train_models ::
  "('i, 's, 'm) sklearn \<Rightarrow> 'm model_trainer \<Rightarrow> matrix \<Rightarrow> real list
     \<Rightarrow> (string \<times> 'm cv_result) list option \<times> 'm model_trainer" where
  "train_models lib self X y =
     (if length X < 3 then (None, self\<lparr>is_trained := False\<rparr>)
      else
        (case train_loop lib (models self) X y [] of
           (Inl e, models') \<Rightarrow> (None, self\<lparr>models := models', is_trained := False\<rparr>)
         | (Inr results, models') \<Rightarrow>
             (case min_by_key (\<lambda>(name, entry). cv_mae_mean entry) results of
                Inl e \<Rightarrow> (None, self\<lparr>models := models', is_trained := False\<rparr>)
              | Inr (name, entry) \<Rightarrow>
                  (Some results,
                   self\<lparr>models := models', best_model := Some (model entry),
                        best_model_name := Some name, is_trained := True\<rparr>))))"

text \<open>\<^verbatim>\<open>ModelTrainer.predict\<close>\<close>

definition trainer_predict ::
  "('i, 's, 'm) sklearn \<Rightarrow> 'm model_trainer \<Rightarrow> matrix \<Rightarrow> error + real list" where
  "trainer_predict lib self X =
     (case best_model self of
        Some m \<Rightarrow> if is_trained self then model_predict lib m X else Inl NotFittedError
      | None \<Rightarrow> Inl NotFittedError)"

section \<open>Placement prediction (src/models/predictor.py)\<close>

text \<open>
  One entry of the list \<^verbatim>\<open>predict_placements\<close> returns. The validator reads only the
  keys \<^verbatim>\<open>team\<close> and \<^verbatim>\<open>predicted_placement\<close>, so these form the base record.
\<close>

record placement_entry =
  team :: string
  predicted_placement :: int

record result_features =
  f_roster_stability :: real
  f_avg_player_rating :: real
  f_win_rate :: real
  f_recent_form :: real

record prediction = placement_entry +
  region :: string
  confidence_score :: real
  features :: result_features

record ('i, 's, 'm) placement_predictor =
  model_trainer :: "'m model_trainer"
  feature_engineer :: "('i, 's) feature_engineer"

text \<open>
  \<^verbatim>\<open>int(round(x))\<close> on a float: the nearest integer, a half going to the even neighbour.
\<close>

definition py_round :: "real \<Rightarrow> int" where
  "py_round x =
     (let f = \<lfloor>x\<rfloor>; d = x - of_int f
      in if d < 1/2 then f else if d > 1/2 then f + 1 else if even f then f else f + 1)"

definition dot :: "real list \<Rightarrow> real list \<Rightarrow> real" where
  "dot xs ws = sum_list (map2 (*) xs ws)"

text \<open>An array divided by a scalar.\<close>

definition np_divide_scalar :: "real list \<Rightarrow> real \<Rightarrow> error + real list" where
  "np_divide_scalar xs d =
     (if d = 0 then Inl ZeroDivisionError else Inr (map (\<lambda>x. x / d) xs))"

text \<open>
  \<^verbatim>\<open>_fallback_prediction\<close>. A frame built from no rows has no columns, so selecting the
  five columns raises \<^verbatim>\<open>KeyError\<close>.
\<close>

definition fallback_prediction :: "feature_row list \<Rightarrow> error + real list" where
  "fallback_prediction df =
     (if df = [] then Inl KeyError
      else
        (let weights = [0.15, 0.35, 0.5, 0.3, 0.2];
             scores = map (\<lambda>r. dot [roster_stability r, avg_player_rating r, win_rate r,
                                      recent_form r, strength_of_schedule r] weights) df;
             lo = Min (set scores);
             hi = Max (set scores)
         in bind_result (np_divide_scalar (map (\<lambda>s. s - lo) scores) (hi - lo + 1 / 100000000))
              (\<lambda>normalized_scores.
                 Inr (map (\<lambda>n. 1 + (1 - n) * 7) normalized_scores))))"

definition calculate_confidence :: "real \<Rightarrow> real" where
  "calculate_confidence prediction =
     (let middle = 4.5;
          distance_from_middle = \<bar>prediction - middle\<bar>;
          confidence = distance_from_middle / 3.5
      in max 0.3 (min 0.9 confidence))"

text \<open>
  The \<^verbatim>\<open>try\<close> block of \<^verbatim>\<open>predict_placements\<close> with its handler for
  \<^verbatim>\<open>NotFittedError\<close>; any other exception propagates.
\<close>

definition raw_predictions ::
  "('i, 's, 'm) sklearn \<Rightarrow> 'm model_trainer \<Rightarrow> feature_row list \<Rightarrow> matrix \<Rightarrow> error + real list" where
  "raw_predictions lib trainer df X_processed =
     (case (if is_trained trainer then trainer_predict lib trainer X_processed
            else fallback_prediction df) of
        Inl NotFittedError \<Rightarrow> fallback_prediction df
      | Inl e \<Rightarrow> Inl e
      | Inr predictions \<Rightarrow> Inr predictions)"

text \<open>The dict that \<^verbatim>\<open>predict_placements\<close> appends to \<^verbatim>\<open>results\<close> for one team.\<close>

definition result_entry :: "team \<Rightarrow> training_features \<Rightarrow> real \<Rightarrow> prediction" where
  "result_entry t feature prediction =
     \<lparr>team = team_name t,
      predicted_placement = py_round prediction,
      region = team_region t,
      confidence_score = calculate_confidence prediction,
      features = \<lparr>f_roster_stability = roster_stability feature,
                  f_avg_player_rating = avg_player_rating feature,
                  f_win_rate = win_rate feature,
                  f_recent_form = recent_form feature\<rparr>\<rparr>"

text \<open>
  The loop \<^verbatim>\<open>for i, team in enumerate(teams)\<close> that builds \<^verbatim>\<open>results\<close>;
  \<^verbatim>\<open>predictions[i]\<close> and \<^verbatim>\<open>features[i]\<close> raise \<^verbatim>\<open>IndexError\<close> out of range.
\<close>

fun build_results ::
  "nat \<Rightarrow> team list \<Rightarrow> training_features list \<Rightarrow> real list \<Rightarrow> error + prediction list" where
  "build_results i [] feats predictions = Inr []"
| "build_results i (t # ts) feats predictions =
     (if i < length predictions \<and> i < length feats then
        bind_result (build_results (i + 1) ts feats predictions) (\<lambda>rest.
          Inr (result_entry t (feats ! i) (predictions ! i) # rest))
      else Inl IndexError)"

text \<open>
  \<^verbatim>\<open>_adjust_placements\<close>. First the inner loop
  \<^verbatim>\<open>while placement in used_placements and placement < 8: placement += 1\<close>.
\<close>

function next_free :: "int set \<Rightarrow> int \<Rightarrow> int" where
  "next_free used_placements placement =
     (if placement \<in> used_placements \<and> placement < 8
      then next_free used_placements (placement + 1) else placement)"
  by pat_completeness auto
termination
  by (relation "measure (\<lambda>(used_placements, placement). nat (8 - placement))") auto

declare next_free.simps [simp del]

text \<open>The first loop over \<^verbatim>\<open>results\<close>, threading \<^verbatim>\<open>used_placements\<close>.\<close>

fun greedy_loop :: "prediction list \<Rightarrow> int set \<Rightarrow> prediction list \<times> int set" where
  "greedy_loop [] used_placements = ([], used_placements)"
| "greedy_loop (r # rs) used_placements =
     (let placement = next_free used_placements (predicted_placement r);
          placement = max 1 (min 8 placement);
          r' = r\<lparr>predicted_placement := placement\<rparr>;
          (rs', used') = greedy_loop rs (insert placement used_placements)
      in (r' # rs', used'))"

text \<open>The second loop: \<^verbatim>\<open>result['predicted_placement'] = i + 1\<close>.\<close>

fun relabel :: "nat \<Rightarrow> prediction list \<Rightarrow> prediction list" where
  "relabel i [] = []"
| "relabel i (r # rs) = r\<lparr>predicted_placement := int i + 1\<rparr> # relabel (i + 1) rs"

text \<open>The list \<^verbatim>\<open>sorted_placements\<close> is computed and never read.\<close>

definition adjust_placements :: "prediction list \<Rightarrow> prediction list" where
  "adjust_placements results =
     (let (results', used_placements) = greedy_loop results {}
      in relabel 0 results')"

text \<open>
  \<^verbatim>\<open>predict_placements\<close>; \<^verbatim>\<open>list.sort\<close> is stable, as \<^const>\<open>sort_key\<close> is. The call
  refits the predictor's own feature engineer, whose new state is returned with the results.
\<close>

definition predict_placements ::
  "('i, 's, 'm) sklearn \<Rightarrow> ('i, 's, 'm) placement_predictor \<Rightarrow> (nat \<Rightarrow> datetime) \<Rightarrow> team list
     \<Rightarrow> error + prediction list \<times> ('i, 's, 'm) placement_predictor" where
  "predict_placements lib self clock teams =
     bind_result (extract_features clock teams) (\<lambda>feats.
     bind_result (prepare_features lib (feature_engineer self) feats True)
       (\<lambda>(engineer', df, X_processed).
     bind_result (raw_predictions lib (model_trainer self) df X_processed) (\<lambda>predictions.
     bind_result (build_results 0 teams feats predictions) (\<lambda>results.
       Inr (adjust_placements (sort_key predicted_placement results),
            self\<lparr>feature_engineer := engineer'\<rparr>)))))"

section \<open>Validation (src/validation/validator.py)\<close>

text \<open>
  \<^verbatim>\<open>sklearn.metrics\<close>: the mean of the absolute, respectively squared, differences.
\<close>

definition sk_mean_absolute_error :: "int list \<Rightarrow> int list \<Rightarrow> error + real" where
  "sk_mean_absolute_error y_true y_pred =
     np_mean (map (\<lambda>(t, p). real_of_int \<bar>t - p\<bar>) (zip y_true y_pred))"

definition sk_mean_squared_error :: "int list \<Rightarrow> int list \<Rightarrow> error + real" where
  "sk_mean_squared_error y_true y_pred =
     np_mean (map (\<lambda>(t, p). real_of_int ((t - p)\<^sup>2)) (zip y_true y_pred))"

text \<open>
  The arrays \<^verbatim>\<open>y_true\<close> and \<^verbatim>\<open>y_pred\<close> have one entry per validated team, so the
  elementwise operations of numpy run over \<^const>\<open>zip\<close>. The mean of a boolean array is the
  fraction of its true entries.
\<close>

definition bool_mean :: "bool list \<Rightarrow> error + real" where
  "bool_mean bs = np_mean (map (\<lambda>b. if b then 1 else 0) bs)"

definition accuracy_within_range :: "int list \<Rightarrow> int list \<Rightarrow> int \<Rightarrow> error + real" where
  "accuracy_within_range y_true y_pred range_size =
     (let within_range = map (\<lambda>(t, p). \<bar>t - p\<bar> \<le> range_size) (zip y_true y_pred)
      in bool_mean within_range)"

definition top_n_accuracy :: "int list \<Rightarrow> int list \<Rightarrow> int \<Rightarrow> error + real" where
  "top_n_accuracy y_true y_pred n =
     (let pred_top_n = map (\<lambda>p. p \<le> n) y_pred;
          actual_top_n = map (\<lambda>t. t \<le> n) y_true;
          correct = length (filter (\<lambda>(p, a). p \<and> a) (zip pred_top_n actual_top_n));
          total_top_n = length (filter (\<lambda>a. a) actual_top_n)
      in if total_top_n > 0 then truediv (real correct) (real total_top_n) else Inr 0.0)"

definition perfect_predictions_rate :: "int list \<Rightarrow> int list \<Rightarrow> error + real" where
  "perfect_predictions_rate y_true y_pred =
     (let perfect = map (\<lambda>(t, p). t = p) (zip y_true y_pred)
      in bool_mean perfect)"

record prediction_detail =
  d_team :: string
  d_predicted :: int
  d_actual :: int
  d_error :: int
  within_1 :: bool
  within_2 :: bool
  within_3 :: bool

record analysis =
  prediction_details :: "prediction_detail list"
  biggest_surprises :: "(string \<times> int) list"
  biggest_disappointments :: "(string \<times> int) list"

text \<open>
  \<^verbatim>\<open>_detailed_analysis\<close>; \<^verbatim>\<open>sort(key=..., reverse=True)\<close> keeps equal keys in their
  original order, as a stable sort on the negated key does.
\<close>

definition detailed_analysis :: "int list \<Rightarrow> int list \<Rightarrow> string list \<Rightarrow> analysis" where
  "detailed_analysis y_true y_pred teams =
     (let details = map (\<lambda>(tm, pred, actual).
                      (let err = \<bar>pred - actual\<bar>
                       in \<lparr>d_team = tm, d_predicted = pred, d_actual = actual, d_error = err,
                           within_1 = (err \<le> 1), within_2 = (err \<le> 2), within_3 = (err \<le> 3)\<rparr>))
                    (zip teams (zip y_pred y_true));
          surprises = map (\<lambda>d. (d_team d, d_predicted d - d_actual d))
                        (filter (\<lambda>d. d_actual d < d_predicted d) details);
          disappointments = map (\<lambda>d. (d_team d, d_actual d - d_predicted d))
                              (filter (\<lambda>d. d_actual d > d_predicted d) details)
      in \<lparr>prediction_details = details,
          biggest_surprises = take 3 (sort_key (\<lambda>x. - snd x) surprises),
          biggest_disappointments = take 3 (sort_key (\<lambda>x. - snd x) disappointments)\<rparr>)"

record metrics = analysis +
  num_teams_validated :: nat
  mean_absolute_error :: real
  mean_squared_error :: real
  root_mean_squared_error :: real
  accuracy_within_1 :: real
  accuracy_within_2 :: real
  accuracy_within_3 :: real
  top_3_accuracy :: real
  top_5_accuracy :: real
  perfect_predictions :: real

text \<open>
  What \<^verbatim>\<open>validate_predictions\<close> returns: the dict with the single key \<^verbatim>\<open>error\<close>, or
  the metrics.
\<close>

datatype validation_report = NoMatch string | Report metrics

text \<open>The first loop of \<^verbatim>\<open>validate_predictions\<close>, which keeps the teams with a known placement.\<close>

fun collect_valid ::
  "'a placement_entry_scheme list \<Rightarrow> (string \<rightharpoonup> int) \<Rightarrow> int list \<times> int list \<times> string list" where
  "collect_valid [] actual_placements = ([], [], [])"
| "collect_valid (p # ps) actual_placements =
     (let (valid_predictions, valid_actuals, valid_teams) = collect_valid ps actual_placements
      in case actual_placements (team p) of
           Some a \<Rightarrow> (predicted_placement p # valid_predictions, a # valid_actuals,
                      team p # valid_teams)
         | None \<Rightarrow> (valid_predictions, valid_actuals, valid_teams))"

definition validate_predictions ::
  "'a placement_entry_scheme list \<Rightarrow> (string \<rightharpoonup> int) \<Rightarrow> error + validation_report" where
  "validate_predictions predictions actual_placements =
     (let (y_pred, y_true, valid_teams) = collect_valid predictions actual_placements
      in if y_pred = [] then Inr (NoMatch ''No matching teams found for validation'')
         else
           bind_result (sk_mean_absolute_error y_true y_pred) (\<lambda>mae.
           bind_result (sk_mean_squared_error y_true y_pred) (\<lambda>mse.
           bind_result (accuracy_within_range y_true y_pred 1) (\<lambda>acc1.
           bind_result (accuracy_within_range y_true y_pred 2) (\<lambda>acc2.
           bind_result (accuracy_within_range y_true y_pred 3) (\<lambda>acc3.
           bind_result (top_n_accuracy y_true y_pred 3) (\<lambda>top3.
           bind_result (top_n_accuracy y_true y_pred 5) (\<lambda>top5.
           bind_result (perfect_predictions_rate y_true y_pred) (\<lambda>perfect.
             (let a = detailed_analysis y_true y_pred valid_teams
              in Inr (Report
                   \<lparr>prediction_details = prediction_details a,
                    biggest_surprises = biggest_surprises a,
                    biggest_disappointments = biggest_disappointments a,
                    num_teams_validated = length y_pred,
                    mean_absolute_error = mae,
                    mean_squared_error = mse,
                    root_mean_squared_error = sqrt mse,
                    accuracy_within_1 = acc1,
                    accuracy_within_2 = acc2,
                    accuracy_within_3 = acc3,
                    top_3_accuracy = top3,
                    top_5_accuracy = top5,
                    perfect_predictions = perfect\<rparr>)))))))))))"

section \<open>Properties of feature extraction\<close>

text \<open>Sequencing of results.\<close>

lemma bind_result_Inr [simp]: "bind_result (Inr v) f = f v"
  by (simp add: bind_result_def)

lemma bind_result_Inl [simp]: "bind_result (Inl e) f = Inl e"
  by (simp add: bind_result_def)

text \<open>
  No calculation of the processor raises: each division is guarded by the emptiness test
  before it, or has a positive divisor.
\<close>

lemma calculate_roster_stability_value:
  "calculate_roster_stability now t =
     Inr (case formed_date t of None \<Rightarrow> 1/2
          | Some fd \<Rightarrow> min (real_of_int (timedelta_days now fd) / 365) 1
                        * (real (length (players t)) / 5))"
  by (simp add: calculate_roster_stability_def truediv_def Let_def split: option.split)

lemma calculate_roster_stability_total:
  "\<exists>s. calculate_roster_stability now t = Inr s"
  using calculate_roster_stability_value by blast

lemma calculate_individual_performance_total:
  "\<exists>p. calculate_individual_performance t = Inr p"
  by (cases "players t = []") (simp_all add: calculate_individual_performance_def truediv_def Let_def)

lemma form_loop_total: "\<exists>acc'. form_loop i ms acc = Inr acc'"
proof (induction ms arbitrary: i acc)
  case Nil
  show ?case by simp
next
  case (Cons m ms)
  obtain f w where acc: "acc = (f, w)" by (cases acc)
  show ?case using Cons.IH by (simp add: acc truediv_def)
qed

lemma schedule_strength_value:
  "schedule_strength ms =
     Inr (if ms = [] then 1/2
          else 1/2 + 3/10 * (real (length (filter (\<lambda>m. opponent m \<in> set strong_opponents) ms))
                             / real (length ms)))"
  by (simp add: schedule_strength_def truediv_def Let_def)

lemma calculate_team_performance_total:
  "\<exists>p. calculate_team_performance t = Inr p"
proof -
  obtain f w where fl: "form_loop 0 (take 6 (recent_matches t)) (0, 0) = Inr (f, w)"
    using form_loop_total [of 0 "take 6 (recent_matches t)" "(0, 0)"] by auto
  have "\<not> isl (calculate_team_performance t)"
    by (simp add: calculate_team_performance_def Let_def fl schedule_strength_value truediv_def)
  then show ?thesis by (cases "calculate_team_performance t") auto
qed

lemma calculate_tournament_performance_total:
  "\<exists>p. calculate_tournament_performance t = Inr p"
proof -
  have "\<not> isl (calculate_tournament_performance t)"
    by (simp add: calculate_tournament_performance_def truediv_def Let_def)
  then show ?thesis by (cases "calculate_tournament_performance t") auto
qed

lemma extract_team_features_total:
  "\<exists>f. extract_team_features now t = Inr f"
proof -
  obtain s where 1: "calculate_roster_stability now t = Inr s"
    using calculate_roster_stability_total by blast
  obtain p where 2: "calculate_individual_performance t = Inr p"
    using calculate_individual_performance_total by blast
  obtain q where 3: "calculate_team_performance t = Inr q"
    using calculate_team_performance_total by blast
  obtain r where 4: "calculate_tournament_performance t = Inr r"
    using calculate_tournament_performance_total by blast
  show ?thesis by (simp add: extract_team_features_def 1 2 3 4)
qed

lemma extract_loop_total:
  "\<exists>fs. extract_loop clock i ts = Inr fs \<and> length fs = length ts \<and>
     (\<forall>j<length ts. extract_team_features (clock (i + j)) (ts ! j) = Inr (fs ! j))"
proof (induction ts arbitrary: i)
  case Nil
  show ?case by simp
next
  case (Cons t ts)
  obtain f where f: "extract_team_features (clock i) t = Inr f"
    using extract_team_features_total by blast
  obtain fs where fs: "extract_loop clock (i + 1) ts = Inr fs" "length fs = length ts"
    and nth: "\<forall>j<length ts. extract_team_features (clock (i + 1 + j)) (ts ! j) = Inr (fs ! j)"
    using Cons.IH [of "i + 1"] by blast
  have "\<forall>j<length (t # ts). extract_team_features (clock (i + j)) ((t # ts) ! j) = Inr ((f # fs) ! j)"
  proof (intro allI impI)
    fix j assume "j < length (t # ts)"
    then show "extract_team_features (clock (i + j)) ((t # ts) ! j) = Inr ((f # fs) ! j)"
      using f nth by (cases j) auto
  qed
  then show ?case using f fs by simp
qed

lemma extract_features_total:
  "\<exists>fs. extract_features clock teams = Inr fs \<and> length fs = length teams \<and>
     (\<forall>j<length teams. extract_team_features (clock j) (teams ! j) = Inr (fs ! j))"
  using extract_loop_total [of clock 0 teams] by (simp add: extract_features_def)

lemma extract_team_features_empty_players:
  assumes "extract_team_features now t = Inr f" "players t = []"
  shows "avg_player_rating f = 0 \<and> avg_acs f = 0 \<and> avg_kdr f = 0 \<and> avg_kast f = 0"
proof -
  have ip: "calculate_individual_performance t =
      Inr \<lparr>ip_avg_rating = 0, ip_avg_acs = 0, ip_avg_kdr = 0, ip_avg_kast = 0\<rparr>"
    using assms(2) by (simp add: calculate_individual_performance_def)
  obtain s where 1: "calculate_roster_stability now t = Inr s"
    using calculate_roster_stability_total by blast
  obtain q where 3: "calculate_team_performance t = Inr q"
    using calculate_team_performance_total by blast
  obtain r where 4: "calculate_tournament_performance t = Inr r"
    using calculate_tournament_performance_total by blast
  from assms(1) show ?thesis
    by (auto simp add: extract_team_features_def 1 ip 3 4)
qed

lemma extract_team_features_empty_matches:
  assumes "extract_team_features now t = Inr f" "recent_matches t = []"
  shows "win_rate f = 1/2 \<and> recent_form f = 1/2 \<and> tournament_results f = 1/2"
proof -
  have tp: "calculate_team_performance t =
      Inr \<lparr>tp_win_rate = 1/2, tp_recent_form = 1/2, tp_strength_of_schedule = 1/2\<rparr>"
    using assms(2) by (simp add: calculate_team_performance_def)
  have tr: "calculate_tournament_performance t = Inr (1/2)"
    using assms(2) by (simp add: calculate_tournament_performance_def)
  obtain s where 1: "calculate_roster_stability now t = Inr s"
    using calculate_roster_stability_total by blast
  obtain p where 2: "calculate_individual_performance t = Inr p"
    using calculate_individual_performance_total by blast
  from assms(1) show ?thesis
    by (auto simp add: extract_team_features_def 1 2 tp tr)
qed

text \<open>
  Claim C5. \<^verbatim>\<open>extract_features\<close> returns one feature record per team and never raises,
  whatever data is absent. For a team with an empty \<^verbatim>\<open>players\<close> list the four individual
  averages (\<^verbatim>\<open>avg_player_rating\<close>, \<^verbatim>\<open>avg_acs\<close>, \<^verbatim>\<open>avg_kdr\<close>, \<^verbatim>\<open>avg_kast\<close>) are 0.0; for a
  team with an empty \<^verbatim>\<open>recent_matches\<close> list, \<^verbatim>\<open>win_rate\<close>, \<^verbatim>\<open>recent_form\<close> and
  \<^verbatim>\<open>tournament_results\<close> are 0.5.
\<close>

theorem extract_features_neutral_defaults:
  "\<exists>fs. extract_features clock teams = Inr fs \<and> length fs = length teams \<and>
     (\<forall>i<length teams.
        (players (teams ! i) = [] \<longrightarrow>
           avg_player_rating (fs ! i) = 0 \<and> avg_acs (fs ! i) = 0 \<and>
           avg_kdr (fs ! i) = 0 \<and> avg_kast (fs ! i) = 0) \<and>
        (recent_matches (teams ! i) = [] \<longrightarrow>
           win_rate (fs ! i) = 0.5 \<and> recent_form (fs ! i) = 0.5 \<and>
           tournament_results (fs ! i) = 0.5))"
proof -
  obtain fs where fs: "extract_features clock teams = Inr fs" "length fs = length teams"
    and nth: "\<forall>j<length teams. extract_team_features (clock j) (teams ! j) = Inr (fs ! j)"
    using extract_features_total by blast
  have "\<forall>i<length teams.
        (players (teams ! i) = [] \<longrightarrow>
           avg_player_rating (fs ! i) = 0 \<and> avg_acs (fs ! i) = 0 \<and>
           avg_kdr (fs ! i) = 0 \<and> avg_kast (fs ! i) = 0) \<and>
        (recent_matches (teams ! i) = [] \<longrightarrow>
           win_rate (fs ! i) = 0.5 \<and> recent_form (fs ! i) = 0.5 \<and>
           tournament_results (fs ! i) = 0.5)"
  proof (intro allI impI)
    fix i assume "i < length teams"
    then have e: "extract_team_features (clock i) (teams ! i) = Inr (fs ! i)"
      using nth by blast
    show "(players (teams ! i) = [] \<longrightarrow>
           avg_player_rating (fs ! i) = 0 \<and> avg_acs (fs ! i) = 0 \<and>
           avg_kdr (fs ! i) = 0 \<and> avg_kast (fs ! i) = 0) \<and>
        (recent_matches (teams ! i) = [] \<longrightarrow>
           win_rate (fs ! i) = 0.5 \<and> recent_form (fs ! i) = 0.5 \<and>
           tournament_results (fs ! i) = 0.5)"
      using extract_team_features_empty_players [OF e]
        extract_team_features_empty_matches [OF e] by simp
  qed
  then show ?thesis using fs by blast
qed

text \<open>A team with no players, no matches and no formation date.\<close>

theorem extract_features_neutral_defaults_witness:
  "\<exists>fs. extract_features (\<lambda>i. 0)
          [\<lparr>team_ident = ''t1'', team_name = ''Alpha'', team_region = ''BR'', players = [],
            formed_date = None, recent_matches = []\<rparr>] = Inr fs \<and>
        avg_player_rating (fs ! 0) = 0 \<and> avg_acs (fs ! 0) = 0 \<and>
        avg_kdr (fs ! 0) = 0 \<and> avg_kast (fs ! 0) = 0 \<and>
        win_rate (fs ! 0) = 0.5 \<and> recent_form (fs ! 0) = 0.5 \<and>
        tournament_results (fs ! 0) = 0.5"
  using extract_features_neutral_defaults [of "\<lambda>i. 0"
          "[\<lparr>team_ident = ''t1'', team_name = ''Alpha'', team_region = ''BR'', players = [],
            formed_date = None, recent_matches = []\<rparr>]"]
  by auto

text \<open>
  Claim C8. For every team \<^verbatim>\<open>calculate_team_performance\<close> returns, and its
  \<^verbatim>\<open>strength_of_schedule\<close> is 0.5 when there are no matches and otherwise 0.5 plus 0.3
  times the fraction of the recent matches played against one of the three strong
  opponents; it lies in [0.5, 0.8], and the final \<^verbatim>\<open>min(., 1.0)\<close> leaves the value
  unchanged.
\<close>

theorem strength_of_schedule_range:
  "\<exists>p s. calculate_team_performance t = Inr p \<and>
     schedule_strength (recent_matches t) = Inr s \<and> min s 1.0 = s \<and>
     tp_strength_of_schedule p =
       (if recent_matches t = [] then 0.5
        else 0.5 + 0.3 * (real (length (filter (\<lambda>m. opponent m \<in> set strong_opponents)
                                          (recent_matches t)))
                          / real (length (recent_matches t)))) \<and>
     0.5 \<le> tp_strength_of_schedule p \<and> tp_strength_of_schedule p \<le> 0.8"
proof -
  define ms where "ms = recent_matches t"
  define k where "k = length (filter (\<lambda>m. opponent m \<in> set strong_opponents) ms)"
  define s where "s = (if ms = [] then 1/2 else 1/2 + 3/10 * (real k / real (length ms)))"
  have kn: "k \<le> length ms" unfolding k_def by simp
  have frac: "0 \<le> real k / real (length ms)" "real k / real (length ms) \<le> 1"
    using kn by (simp_all add: divide_le_eq_1)
  have s_bounds: "1/2 \<le> s" "s \<le> 4/5"
    using frac unfolding s_def by auto
  have ss: "schedule_strength ms = Inr s"
    unfolding s_def k_def by (simp add: schedule_strength_value)
  obtain p where p: "calculate_team_performance t = Inr p"
    using calculate_team_performance_total by blast
  obtain f w where fl: "form_loop 0 (take 6 ms) (0, 0) = Inr (f, w)"
    using form_loop_total [of 0 "take 6 ms" "(0, 0)"] by auto
  have sos: "tp_strength_of_schedule p = s"
  proof (cases "ms = []")
    case True
    then show ?thesis using p
      by (auto simp add: calculate_team_performance_def ms_def s_def)
  next
    case False
    then have "tp_strength_of_schedule p = min s 1"
      using p ss fl
      by (auto simp add: calculate_team_performance_def ms_def [symmetric] Let_def truediv_def
          split: if_splits)
    then show ?thesis using s_bounds by simp
  qed
  have "min s 1.0 = s" using s_bounds by simp
  moreover have "tp_strength_of_schedule p =
       (if recent_matches t = [] then 0.5
        else 0.5 + 0.3 * (real (length (filter (\<lambda>m. opponent m \<in> set strong_opponents)
                                          (recent_matches t)))
                          / real (length (recent_matches t))))"
    using sos by (simp add: s_def k_def ms_def)
  moreover have "0.5 \<le> tp_strength_of_schedule p" "tp_strength_of_schedule p \<le> 0.8"
    using sos s_bounds by simp_all
  ultimately show ?thesis using p ss unfolding ms_def by blast
qed

text \<open>Two matches, one of them against a strong opponent: 0.5 + 0.3 / 2.\<close>

theorem strength_of_schedule_range_witness:
  "\<exists>p. calculate_team_performance
          \<lparr>team_ident = ''t1'', team_name = ''Alpha'', team_region = ''BR'', players = [],
           formed_date = None,
           recent_matches = [\<lparr>opponent = ''G2 Gozen'', result = ''win'', date = 0, event = None\<rparr>,
                             \<lparr>opponent = ''Team A'', result = ''loss'', date = 0, event = None\<rparr>]\<rparr>
          = Inr p \<and> tp_strength_of_schedule p = 0.65"
  using strength_of_schedule_range [of
          "\<lparr>team_ident = ''t1'', team_name = ''Alpha'', team_region = ''BR'', players = [],
           formed_date = None,
           recent_matches = [\<lparr>opponent = ''G2 Gozen'', result = ''win'', date = 0, event = None\<rparr>,
                             \<lparr>opponent = ''Team A'', result = ''loss'', date = 0, event = None\<rparr>]\<rparr>"]
  by (auto simp add: strong_opponents_def)

subsection \<open>Dependence on the clock\<close>

text \<open>
  Claim C3. Two applications of \<^verbatim>\<open>extract_features\<close> to the same team snapshot should
  yield identical features, as the repository's test \<^verbatim>\<open>test_feature_consistency\<close> asserts
  for \<^verbatim>\<open>roster_stability\<close>. The code does not: \<^verbatim>\<open>calculate_roster_stability\<close> reads
  \<^verbatim>\<open>datetime.now()\<close>. For a team with one player, the application that reads the clock one
  microsecond before 99 days after the formation date returns \<^verbatim>\<open>roster_stability\<close>
  98/365/5, and the application that reads it at 99 days returns 99/365/5; the other eight
  fields agree.
\<close>

theorem extract_features_clock_divergence:
  "extract_features (\<lambda>i. 8553600000000 - 1)
     [\<lparr>team_ident = ''t1'', team_name = ''Alpha'', team_region = ''BR'',
       players = [\<lparr>player_id = ''p1'', player_name = ''P'', role = ''duelist'',
                   stats = [''rating'' \<mapsto> 1]\<rparr>],
       formed_date = Some 0, recent_matches = []\<rparr>]
   = Inr [\<lparr>roster_stability = 98 / 1825, avg_player_rating = 1, avg_acs = 0, avg_kdr = 0,
           avg_kast = 0, win_rate = 1 / 2, recent_form = 1 / 2, strength_of_schedule = 1 / 2,
           tournament_results = 1 / 2, team_id = ''t1'', target = None\<rparr>] \<and>
   extract_features (\<lambda>i. 8553600000000)
     [\<lparr>team_ident = ''t1'', team_name = ''Alpha'', team_region = ''BR'',
       players = [\<lparr>player_id = ''p1'', player_name = ''P'', role = ''duelist'',
                   stats = [''rating'' \<mapsto> 1]\<rparr>],
       formed_date = Some 0, recent_matches = []\<rparr>]
   = Inr [\<lparr>roster_stability = 99 / 1825, avg_player_rating = 1, avg_acs = 0, avg_kdr = 0,
           avg_kast = 0, win_rate = 1 / 2, recent_form = 1 / 2, strength_of_schedule = 1 / 2,
           tournament_results = 1 / 2, team_id = ''t1'', target = None\<rparr>] \<and>
   (98 / 1825 :: real) \<noteq> 99 / 1825"
  by (simp add: extract_features_def extract_team_features_def calculate_roster_stability_def
      calculate_individual_performance_def calculate_team_performance_def
      calculate_tournament_performance_def timedelta_days_def truediv_def stats_get_def Let_def)

section \<open>Properties of the composite features\<close>

lemma composite_of_row_index:
  "team_strength_index (composite_of_row r) =
     (avg_player_rating r * 0.4 + avg_acs r * 0.2 + avg_kdr r * 0.2 + avg_kast r * 0.2) / 200 * 0.3
     + win_rate r * 0.25 + recent_form r * 0.2 + roster_stability r * 0.15
     + tournament_results r * strength_of_schedule r * 0.1"
  by (simp add: composite_of_row_def Let_def)

lemma unit_interval_mult:
  fixes a b :: real
  assumes "0 \<le> a" "a \<le> 1" "0 \<le> b" "b \<le> 1"
  shows "0 \<le> a * b" "a * b \<le> 1"
  using assms by (simp_all add: mult_le_one)

lemma strength_index_arith:
  fixes rs pr ac kd ka wr rf ti :: real
  assumes "0 \<le> rs" "rs \<le> 1" "0 \<le> pr" "pr \<le> 1" "0 \<le> ac" "ac \<le> 1"
    "0 \<le> kd" "kd \<le> 1" "0 \<le> ka" "ka \<le> 1" "0 \<le> wr" "wr \<le> 1"
    "0 \<le> rf" "rf \<le> 1" "0 \<le> ti" "ti \<le> 1"
  shows "0 \<le> (pr * 0.4 + ac * 0.2 + kd * 0.2 + ka * 0.2) / 200 * 0.3
              + wr * 0.25 + rf * 0.2 + rs * 0.15 + ti * 0.1"
    and "(pr * 0.4 + ac * 0.2 + kd * 0.2 + ka * 0.2) / 200 * 0.3
              + wr * 0.25 + rf * 0.2 + rs * 0.15 + ti * 0.1 \<le> 1"
proof -
  show "0 \<le> (pr * 0.4 + ac * 0.2 + kd * 0.2 + ka * 0.2) / 200 * 0.3
              + wr * 0.25 + rf * 0.2 + rs * 0.15 + ti * 0.1"
    using assms by simp
  have "(pr * 0.4 + ac * 0.2 + kd * 0.2 + ka * 0.2) / 200 * 0.3
              + wr * 0.25 + rf * 0.2 + rs * 0.15 + ti * 0.1
        = pr * (3/5000) + ac * (3/10000) + kd * (3/10000) + ka * (3/10000)
          + wr * (1/4) + rf * (1/5) + rs * (3/20) + ti * (1/10)"
    by (simp add: field_simps)
  also have "\<dots> \<le> 1" using assms by linarith
  finally show "(pr * 0.4 + ac * 0.2 + kd * 0.2 + ka * 0.2) / 200 * 0.3
              + wr * 0.25 + rf * 0.2 + rs * 0.15 + ti * 0.1 \<le> 1" .
qed

text \<open>
  Claim C6. \<^verbatim>\<open>create_composite_features\<close> keeps one row per input row, and for every row
  whose nine primitive features each lie in [0, 1] the column \<^verbatim>\<open>team_strength_index\<close> lies
  in [0, 1].
\<close>

theorem team_strength_index_bounded:
  assumes "i < length df"
    and "0 \<le> roster_stability (df ! i)" "roster_stability (df ! i) \<le> 1"
    and "0 \<le> avg_player_rating (df ! i)" "avg_player_rating (df ! i) \<le> 1"
    and "0 \<le> avg_acs (df ! i)" "avg_acs (df ! i) \<le> 1"
    and "0 \<le> avg_kdr (df ! i)" "avg_kdr (df ! i) \<le> 1"
    and "0 \<le> avg_kast (df ! i)" "avg_kast (df ! i) \<le> 1"
    and "0 \<le> win_rate (df ! i)" "win_rate (df ! i) \<le> 1"
    and "0 \<le> recent_form (df ! i)" "recent_form (df ! i) \<le> 1"
    and "0 \<le> strength_of_schedule (df ! i)" "strength_of_schedule (df ! i) \<le> 1"
    and "0 \<le> tournament_results (df ! i)" "tournament_results (df ! i) \<le> 1"
  shows "length (create_composite_features df) = length df \<and>
         0 \<le> team_strength_index (create_composite_features df ! i) \<and>
         team_strength_index (create_composite_features df ! i) \<le> 1"
proof -
  define r where "r = df ! i"
  have row: "create_composite_features df ! i = composite_of_row r"
    using assms(1) by (simp add: create_composite_features_def r_def)
  have ti: "0 \<le> tournament_results r * strength_of_schedule r"
      "tournament_results r * strength_of_schedule r \<le> 1"
    using assms unit_interval_mult unfolding r_def by blast+
  have lo: "0 \<le> team_strength_index (composite_of_row r)"
    unfolding composite_of_row_index mult.assoc [of "tournament_results r"]
    using assms(2-) ti unfolding r_def
    by (intro strength_index_arith(1) [where ti = "tournament_results (df ! i) * strength_of_schedule (df ! i)", unfolded mult.assoc]) auto
  have hi: "team_strength_index (composite_of_row r) \<le> 1"
    unfolding composite_of_row_index
    using assms(2-) ti unfolding r_def
    by (intro strength_index_arith(2)) auto
  show ?thesis using row lo hi by (simp add: create_composite_features_def)
qed

text \<open>The row with every feature equal to 1.\<close>

theorem team_strength_index_bounded_witness:
  "team_strength_index (create_composite_features
      [\<lparr>roster_stability = 1, avg_player_rating = 1, avg_acs = 1, avg_kdr = 1, avg_kast = 1,
        win_rate = 1, recent_form = 1, strength_of_schedule = 1, tournament_results = 1\<rparr>] ! 0)
     \<le> 1"
  using team_strength_index_bounded [of 0
      "[\<lparr>roster_stability = 1, avg_player_rating = 1, avg_acs = 1, avg_kdr = 1, avg_kast = 1,
        win_rate = 1, recent_form = 1, strength_of_schedule = 1, tournament_results = 1\<rparr>]"]
  by simp

section \<open>Properties of the validator\<close>

lemma np_mean_Inr: "xs \<noteq> [] \<Longrightarrow> np_mean xs = Inr (sum_list xs / real (length xs))"
  by (simp add: np_mean_def truediv_def)

lemma bool_mean_Inr:
  "bs \<noteq> [] \<Longrightarrow> bool_mean bs = Inr (sum_list (map (\<lambda>b. if b then 1 else 0) bs) / real (length bs))"
  by (simp add: bool_mean_def np_mean_Inr)

lemma top_n_accuracy_total: "\<not> isl (top_n_accuracy y_true y_pred n)"
proof (cases "length (filter (\<lambda>a. a) (map (\<lambda>t. t \<le> n) y_true)) = 0")
  case True
  then show ?thesis unfolding top_n_accuracy_def Let_def by simp
next
  case False
  then show ?thesis unfolding top_n_accuracy_def Let_def truediv_def by simp
qed

lemma top_n_accuracy_zero:
  assumes "\<forall>a\<in>set y_true. n < a"
  shows "top_n_accuracy y_true y_pred n = Inr 0"
proof -
  have "filter (\<lambda>a. a) (map (\<lambda>t. t \<le> n) y_true) = []"
    using assms by (auto simp add: filter_empty_conv)
  then show ?thesis by (simp add: top_n_accuracy_def Let_def)
qed

lemma collect_valid_lengths:
  "collect_valid ps actual = (vp, va, vt) \<Longrightarrow>
     length va = length vp \<and> length vt = length vp \<and>
     (\<forall>a\<in>set va. \<exists>p\<in>set ps. actual (team p) = Some a)"
proof (induction ps arbitrary: vp va vt)
  case Nil
  then show ?case by simp
next
  case (Cons p ps)
  obtain vp' va' vt' where r: "collect_valid ps actual = (vp', va', vt')"
    by (cases "collect_valid ps actual") auto
  have ih: "length va' = length vp' \<and> length vt' = length vp' \<and>
     (\<forall>a\<in>set va'. \<exists>p\<in>set ps. actual (team p) = Some a)"
    using Cons.IH [OF r] .
  show ?case
  proof (cases "actual (team p)")
    case None
    then show ?thesis using Cons.prems r ih by auto
  next
    case (Some a)
    then show ?thesis using Cons.prems r ih by auto
  qed
qed

lemma validate_predictions_value:
  assumes cv: "collect_valid predictions actual = (y_pred, y_true, valid_teams)"
  shows "\<exists>r. validate_predictions predictions actual = Inr r \<and>
     (\<forall>m. r = Report m \<longrightarrow>
        y_pred \<noteq> [] \<and>
        accuracy_within_range y_true y_pred 1 = Inr (accuracy_within_1 m) \<and>
        accuracy_within_range y_true y_pred 2 = Inr (accuracy_within_2 m) \<and>
        accuracy_within_range y_true y_pred 3 = Inr (accuracy_within_3 m) \<and>
        top_n_accuracy y_true y_pred 3 = Inr (top_3_accuracy m) \<and>
        top_n_accuracy y_true y_pred 5 = Inr (top_5_accuracy m) \<and>
        perfect_predictions_rate y_true y_pred = Inr (perfect_predictions m))"
proof (cases "y_pred = []")
  case True
  then show ?thesis using cv by (simp add: validate_predictions_def)
next
  case False
  have len: "length y_true = length y_pred"
    using collect_valid_lengths [OF cv] by simp
  then have z: "zip y_true y_pred \<noteq> []" using False by (cases y_true; cases y_pred) auto
  obtain mae where mae: "sk_mean_absolute_error y_true y_pred = Inr mae"
    using z by (simp add: sk_mean_absolute_error_def np_mean_Inr)
  obtain mse where mse: "sk_mean_squared_error y_true y_pred = Inr mse"
    using z by (simp add: sk_mean_squared_error_def np_mean_Inr)
  obtain a1 where a1: "accuracy_within_range y_true y_pred 1 = Inr a1"
    using z by (simp add: accuracy_within_range_def bool_mean_Inr)
  obtain a2 where a2: "accuracy_within_range y_true y_pred 2 = Inr a2"
    using z by (simp add: accuracy_within_range_def bool_mean_Inr)
  obtain a3 where a3: "accuracy_within_range y_true y_pred 3 = Inr a3"
    using z by (simp add: accuracy_within_range_def bool_mean_Inr)
  obtain t3 where t3: "top_n_accuracy y_true y_pred 3 = Inr t3"
    using top_n_accuracy_total [of y_true y_pred 3]
    by (cases "top_n_accuracy y_true y_pred 3") auto
  obtain t5 where t5: "top_n_accuracy y_true y_pred 5 = Inr t5"
    using top_n_accuracy_total [of y_true y_pred 5]
    by (cases "top_n_accuracy y_true y_pred 5") auto
  obtain pf where pf: "perfect_predictions_rate y_true y_pred = Inr pf"
    using z by (simp add: perfect_predictions_rate_def bool_mean_Inr)
  show ?thesis
    using False cv by (simp add: validate_predictions_def mae mse a1 a2 a3 t3 t5 pf Let_def)
qed

text \<open>
  Claim C7. With actual placements 1, 2, 3, 4 and predicted placements 1, 3, 2, 4 for four
  different teams, \<^verbatim>\<open>_accuracy_within_range\<close> with range 1 gives 1.0 and
  \<^verbatim>\<open>_perfect_predictions\<close> gives 0.5, and \<^verbatim>\<open>validate_predictions\<close> reports these two values
  as \<^verbatim>\<open>accuracy_within_1\<close> and \<^verbatim>\<open>perfect_predictions\<close> for the four validated teams.
\<close>

theorem validation_accuracy_example:
  assumes "distinct [t1, t2, t3, t4]"
  shows "accuracy_within_range [1, 2, 3, 4] [1, 3, 2, 4] 1 = Inr 1.0 \<and>
         perfect_predictions_rate [1, 2, 3, 4] [1, 3, 2, 4] = Inr 0.5 \<and>
         (\<exists>m. validate_predictions
                 [\<lparr>team = t1, predicted_placement = 1\<rparr>, \<lparr>team = t2, predicted_placement = 3\<rparr>,
                  \<lparr>team = t3, predicted_placement = 2\<rparr>, \<lparr>team = t4, predicted_placement = 4\<rparr>]
                 [t1 \<mapsto> 1, t2 \<mapsto> 2, t3 \<mapsto> 3, t4 \<mapsto> 4] = Inr (Report m) \<and>
              num_teams_validated m = 4 \<and>
              accuracy_within_1 m = 1.0 \<and> perfect_predictions m = 0.5)"
proof -
  have acc: "accuracy_within_range [1, 2, 3, 4] [1, 3, 2, 4] 1 = Inr 1"
    by (simp add: accuracy_within_range_def bool_mean_def np_mean_def truediv_def)
  have perf: "perfect_predictions_rate [1, 2, 3, 4] [1, 3, 2, 4] = Inr (1/2)"
    by (simp add: perfect_predictions_rate_def bool_mean_def np_mean_def truediv_def)
  have cv: "collect_valid
                 [\<lparr>team = t1, predicted_placement = 1\<rparr>, \<lparr>team = t2, predicted_placement = 3\<rparr>,
                  \<lparr>team = t3, predicted_placement = 2\<rparr>, \<lparr>team = t4, predicted_placement = 4\<rparr>]
                 [t1 \<mapsto> 1, t2 \<mapsto> 2, t3 \<mapsto> 3, t4 \<mapsto> 4]
            = ([1, 3, 2, 4], [1, 2, 3, 4], [t1, t2, t3, t4])"
    using assms by auto
  obtain r where r: "validate_predictions
                 [\<lparr>team = t1, predicted_placement = 1\<rparr>, \<lparr>team = t2, predicted_placement = 3\<rparr>,
                  \<lparr>team = t3, predicted_placement = 2\<rparr>, \<lparr>team = t4, predicted_placement = 4\<rparr>]
                 [t1 \<mapsto> 1, t2 \<mapsto> 2, t3 \<mapsto> 3, t4 \<mapsto> 4] = Inr r"
    using validate_predictions_value [OF cv] by blast
  have "\<exists>m. r = Report m \<and> num_teams_validated m = 4"
    using r cv
    by (auto simp add: validate_predictions_def bind_result_def Let_def split: sum.splits)
  then obtain m where m: "r = Report m" "num_teams_validated m = 4" by blast
  have "accuracy_within_1 m = 1" "perfect_predictions m = 1/2"
    using validate_predictions_value [OF cv] r m acc perf by auto
  then show ?thesis using acc perf r m by simp
qed

text \<open>The four teams Alpha, Bravo, Charlie and Delta.\<close>

theorem validation_accuracy_example_witness:
  "\<exists>m. validate_predictions
          [\<lparr>team = ''Alpha'', predicted_placement = 1\<rparr>, \<lparr>team = ''Bravo'', predicted_placement = 3\<rparr>,
           \<lparr>team = ''Charlie'', predicted_placement = 2\<rparr>, \<lparr>team = ''Delta'', predicted_placement = 4\<rparr>]
          [''Alpha'' \<mapsto> 1, ''Bravo'' \<mapsto> 2, ''Charlie'' \<mapsto> 3, ''Delta'' \<mapsto> 4] = Inr (Report m) \<and>
        accuracy_within_1 m = 1.0 \<and> perfect_predictions m = 0.5"
  using validation_accuracy_example [of "''Alpha''" "''Bravo''" "''Charlie''" "''Delta''"]
  by auto

text \<open>
  Claim C10. \<^verbatim>\<open>_top_n_accuracy\<close> always returns a value, and returns 0.0 when no actual
  placement is within the top \<open>n\<close>: the division is reached only with a positive count.
  Hence \<^verbatim>\<open>validate_predictions\<close> never raises, and in every report
  \<^verbatim>\<open>top_3_accuracy\<close> (\<^verbatim>\<open>top_5_accuracy\<close>) is 0.0 when no validated team actually placed in the
  top 3 (top 5).
\<close>

theorem top_n_accuracy_guarded:
  "(length y_true = length y_pred \<longrightarrow>
      (\<exists>v. top_n_accuracy y_true y_pred n = Inr v) \<and>
      ((\<forall>a\<in>set y_true. n < a) \<longrightarrow> top_n_accuracy y_true y_pred n = Inr 0)) \<and>
   (\<exists>r. validate_predictions predictions actual_placements = Inr r \<and>
      (\<forall>m. r = Report m \<longrightarrow>
         ((\<forall>p\<in>set predictions. \<forall>a. actual_placements (team p) = Some a \<longrightarrow> 3 < a)
            \<longrightarrow> top_3_accuracy m = 0) \<and>
         ((\<forall>p\<in>set predictions. \<forall>a. actual_placements (team p) = Some a \<longrightarrow> 5 < a)
            \<longrightarrow> top_5_accuracy m = 0)))"
proof (intro conjI)
  have "\<exists>v. top_n_accuracy y_true y_pred n = Inr v"
    using top_n_accuracy_total [of y_true y_pred n]
    by (cases "top_n_accuracy y_true y_pred n") auto
  moreover have "(\<forall>a\<in>set y_true. n < a) \<longrightarrow> top_n_accuracy y_true y_pred n = Inr 0"
    using top_n_accuracy_zero by blast
  ultimately show "length y_true = length y_pred \<longrightarrow>
      (\<exists>v. top_n_accuracy y_true y_pred n = Inr v) \<and>
      ((\<forall>a\<in>set y_true. n < a) \<longrightarrow> top_n_accuracy y_true y_pred n = Inr 0)"
    by blast
  obtain vp va vt where cv: "collect_valid predictions actual_placements = (vp, va, vt)"
    by (cases "collect_valid predictions actual_placements") auto
  have va: "\<forall>a\<in>set va. \<exists>p\<in>set predictions. actual_placements (team p) = Some a"
    using collect_valid_lengths [OF cv] by blast
  obtain r where r: "validate_predictions predictions actual_placements = Inr r"
    and rep: "\<forall>m. r = Report m \<longrightarrow>
        top_n_accuracy va vp 3 = Inr (top_3_accuracy m) \<and>
        top_n_accuracy va vp 5 = Inr (top_5_accuracy m)"
    using validate_predictions_value [OF cv] by blast
  have "top_3_accuracy m = 0"
    if "r = Report m"
      "\<forall>p\<in>set predictions. \<forall>a. actual_placements (team p) = Some a \<longrightarrow> 3 < a" for m
  proof -
    have "\<forall>a\<in>set va. 3 < a" using va that(2) by blast
    then have "top_n_accuracy va vp 3 = Inr 0" by (rule top_n_accuracy_zero)
    then show ?thesis using rep that(1) by simp
  qed
  moreover have "top_5_accuracy m = 0"
    if "r = Report m"
      "\<forall>p\<in>set predictions. \<forall>a. actual_placements (team p) = Some a \<longrightarrow> 5 < a" for m
  proof -
    have "\<forall>a\<in>set va. 5 < a" using va that(2) by blast
    then have "top_n_accuracy va vp 5 = Inr 0" by (rule top_n_accuracy_zero)
    then show ?thesis using rep that(1) by simp
  qed
  ultimately show "\<exists>r. validate_predictions predictions actual_placements = Inr r \<and>
      (\<forall>m. r = Report m \<longrightarrow>
         ((\<forall>p\<in>set predictions. \<forall>a. actual_placements (team p) = Some a \<longrightarrow> 3 < a)
            \<longrightarrow> top_3_accuracy m = 0) \<and>
         ((\<forall>p\<in>set predictions. \<forall>a. actual_placements (team p) = Some a \<longrightarrow> 5 < a)
            \<longrightarrow> top_5_accuracy m = 0))"
    using r by blast
qed

text \<open>Actual placements 4, 5, 6 and \<open>n = 3\<close>.\<close>

theorem top_n_accuracy_guarded_witness:
  "top_n_accuracy [4, 5, 6] [1, 2, 3] 3 = Inr 0"
  using top_n_accuracy_guarded [of "[4, 5, 6]" "[1, 2, 3]" 3]
  by auto

section \<open>Properties of model training\<close>

lemma np_std_Inr:
  "xs \<noteq> [] \<Longrightarrow>
     np_std xs = Inr (sqrt (sum_list (map (\<lambda>x. (x - sum_list xs / real (length xs))\<^sup>2) xs)
                            / real (length xs)))"
  by (simp add: np_std_def np_mean_Inr)

lemma train_loop_step:
  assumes "cross_val_score lib m X y (min 3 (length X)) = Inr s" "s \<noteq> []"
    and "model_fit lib m X y = (None, m')"
  shows "train_loop lib ((name, m) # rest) X y results =
     (fst (train_loop lib rest X y
        (AList.update name
           \<lparr>cv_mae_mean = - (sum_list s / real (length s)),
            cv_mae_std = sqrt (sum_list (map (\<lambda>x. (x - sum_list s / real (length s))\<^sup>2) s)
                               / real (length s)),
            model = m'\<rparr> results)),
      (name, m') # snd (train_loop lib rest X y
        (AList.update name
           \<lparr>cv_mae_mean = - (sum_list s / real (length s)),
            cv_mae_std = sqrt (sum_list (map (\<lambda>x. (x - sum_list s / real (length s))\<^sup>2) s)
                               / real (length s)),
            model = m'\<rparr> results)))"
  using assms by (simp add: Let_def np_mean_Inr np_std_Inr split: prod.split)

text \<open>The loop ends with an exception as soon as one candidate raises.\<close>

lemma train_loop_raises:
  assumes "\<exists>(name, m)\<in>set ms.
             (\<exists>e. cross_val_score lib m X y (min 3 (length X)) = Inl e) \<or>
             (\<exists>e. fst (model_fit lib m X y) = Some e)"
  shows "\<exists>e. fst (train_loop lib ms X y results) = Inl e"
  using assms
proof (induction ms arbitrary: results)
  case Nil
  then show ?case by simp
next
  case (Cons a ms)
  obtain name m where a: "a = (name, m)" by (cases a)
  show ?case
  proof (cases "cross_val_score lib m X y (min 3 (length X))")
    case (Inl e)
    then show ?thesis by (simp add: a Let_def)
  next
    case (Inr s)
    note cv = this
    show ?thesis
    proof (cases "bind_result (np_mean s) (\<lambda>mean. bind_result (np_std s) (\<lambda>std. Inr (mean, std)))")
      case (Inl e)
      then show ?thesis using cv by (simp add: a Let_def)
    next
      case (Inr ms')
      obtain mean std where ms': "ms' = (mean, std)" by (cases ms')
      obtain eo m' where fit: "model_fit lib m X y = (eo, m')" by (cases "model_fit lib m X y")
      show ?thesis
      proof (cases eo)
        case (Some e)
        then show ?thesis using cv Inr ms' fit by (simp add: a Let_def)
      next
        case None
        have "\<exists>(name, m)\<in>set ms.
             (\<exists>e. cross_val_score lib m X y (min 3 (length X)) = Inl e) \<or>
             (\<exists>e. fst (model_fit lib m X y) = Some e)"
          using Cons.prems cv fit None by (auto simp add: a)
        note ih = Cons.IH [OF this]
        obtain r rest' where tl: "train_loop lib ms X y
              (AList.update name \<lparr>cv_mae_mean = - mean, cv_mae_std = std, model = m'\<rparr> results)
              = (r, rest')"
          by (cases "train_loop lib ms X y
              (AList.update name \<lparr>cv_mae_mean = - mean, cv_mae_std = std, model = m'\<rparr> results)")
        obtain e where "r = Inl e"
          using ih [of "AList.update name \<lparr>cv_mae_mean = - mean, cv_mae_std = std, model = m'\<rparr> results"]
            tl by auto
        then show ?thesis using cv Inr ms' fit None tl
          by (simp add: a Let_def)
      qed
    qed
  qed
qed

text \<open>\<^verbatim>\<open>min\<close> with a key returns an element whose key is least.\<close>

lemma fold_min_least:
  "fold (\<lambda>item best. if key item < key best then item else best) xs x \<in> set (x # xs) \<and>
   (\<forall>z\<in>set (x # xs).
      key (fold (\<lambda>item best. if key item < key best then item else best) xs x) \<le> (key z :: real))"
proof (induction xs arbitrary: x)
  case Nil
  show ?case by simp
next
  case (Cons a xs)
  let ?x' = "if key a < key x then a else x"
  have ih: "fold (\<lambda>item best. if key item < key best then item else best) xs ?x' \<in> set (?x' # xs) \<and>
   (\<forall>z\<in>set (?x' # xs).
      key (fold (\<lambda>item best. if key item < key best then item else best) xs ?x') \<le> key z)"
    using Cons.IH [of ?x'] .
  have "key (fold (\<lambda>item best. if key item < key best then item else best) xs ?x') \<le> key ?x'"
    using ih by simp
  then have "key (fold (\<lambda>item best. if key item < key best then item else best) xs ?x') \<le> key a"
    "key (fold (\<lambda>item best. if key item < key best then item else best) xs ?x') \<le> key x"
    by (auto split: if_splits)
  then show ?case using ih by (auto split: if_splits)
qed

lemma min_by_key_least:
  assumes "min_by_key key xs = Inr b"
  shows "b \<in> set xs \<and> (\<forall>z\<in>set xs. key b \<le> key z)"
proof (cases xs)
  case Nil
  then show ?thesis using assms by simp
next
  case (Cons x xs')
  then show ?thesis using assms fold_min_least [of key xs' x] by auto
qed

lemma min_by_key_total: "xs \<noteq> [] \<Longrightarrow> \<exists>b. min_by_key key xs = Inr b"
  by (cases xs) auto

lemma train_models_insufficient:
  "length X < 3 \<Longrightarrow> train_models lib self X y = (None, self\<lparr>is_trained := False\<rparr>)"
  by (simp add: train_models_def)

lemma train_models_flag:
  "fst (train_models lib self X y) = None \<longleftrightarrow> \<not> is_trained (snd (train_models lib self X y))"
  by (simp add: train_models_def split: prod.split sum.split)

text \<open>
  Claim C9. \<^verbatim>\<open>train_models\<close> has no exceptional outcome: it returns \<^verbatim>\<open>None\<close> exactly when
  it leaves \<^verbatim>\<open>is_trained\<close> false. With at least 3 rows, if the cross-validation or the
  fit of any candidate in \<^verbatim>\<open>self.models\<close> raises, the call returns \<^verbatim>\<open>None\<close> with
  \<^verbatim>\<open>is_trained\<close> false, and the best model and its name are as they were before the call.
\<close>

theorem train_models_catches:
  "(fst (train_models lib self X y) = None \<longleftrightarrow>
      \<not> is_trained (snd (train_models lib self X y))) \<and>
   (3 \<le> length X \<longrightarrow>
    (\<exists>(name, m)\<in>set (models self).
        (\<exists>e. cross_val_score lib m X y 3 = Inl e) \<or> (\<exists>e. fst (model_fit lib m X y) = Some e)) \<longrightarrow>
    fst (train_models lib self X y) = None \<and>
    \<not> is_trained (snd (train_models lib self X y)) \<and>
    best_model (snd (train_models lib self X y)) = best_model self \<and>
    best_model_name (snd (train_models lib self X y)) = best_model_name self)"
proof (intro conjI impI)
  show "fst (train_models lib self X y) = None \<longleftrightarrow>
      \<not> is_trained (snd (train_models lib self X y))"
    by (rule train_models_flag)
next
  assume len: "3 \<le> length X"
    and raises: "\<exists>(name, m)\<in>set (models self).
        (\<exists>e. cross_val_score lib m X y 3 = Inl e) \<or> (\<exists>e. fst (model_fit lib m X y) = Some e)"
  have min3: "min 3 (length X) = 3" using len by simp
  have "\<exists>e. fst (train_loop lib (models self) X y []) = Inl e"
    using raises by (intro train_loop_raises) (simp add: min3)
  then obtain e models' where tl: "train_loop lib (models self) X y [] = (Inl e, models')"
    by (cases "train_loop lib (models self) X y []") auto
  have r: "train_models lib self X y = (None, self\<lparr>models := models', is_trained := False\<rparr>)"
    using len tl by (simp add: train_models_def)
  show "fst (train_models lib self X y) = None"
    "\<not> is_trained (snd (train_models lib self X y))"
    "best_model (snd (train_models lib self X y)) = best_model self"
    "best_model_name (snd (train_models lib self X y)) = best_model_name self"
    by (simp_all add: r)
qed

text \<open>
  A cross-validation that rejects \<^verbatim>\<open>X\<close> and \<^verbatim>\<open>y\<close> of different lengths, called with 3 rows
  and 2 targets.
\<close>

theorem train_models_catches_witness:
  "fst (train_models
       \<lparr>imputer_fit_transform = (\<lambda>(i::unit) df. Inl ValueError),
        imputer_transform = (\<lambda>i df. Inl ValueError),
        scaler_fit_transform = (\<lambda>(s::unit) M. Inl ValueError),
        scaler_transform = (\<lambda>s M. Inl ValueError),
        cross_val_score = (\<lambda>(m::nat) X y k.
           if length X = length y then Inr (replicate k (- real m)) else Inl ValueError),
        model_fit = (\<lambda>m X y. (None, m + 10)),
        model_predict = (\<lambda>m X. Inl NotFittedError)\<rparr>
       (init_trainer 3 1 2) [[0], [1], [2]] [1, 2]) = None"
proof -
  let ?lib = "\<lparr>imputer_fit_transform = (\<lambda>(i::unit) df. Inl ValueError),
        imputer_transform = (\<lambda>i df. Inl ValueError),
        scaler_fit_transform = (\<lambda>(s::unit) M. Inl ValueError),
        scaler_transform = (\<lambda>s M. Inl ValueError),
        cross_val_score = (\<lambda>(m::nat) X y k.
           if length X = length y then Inr (replicate k (- real m)) else Inl ValueError),
        model_fit = (\<lambda>m X y. (None, m + 10)),
        model_predict = (\<lambda>m X. Inl NotFittedError)\<rparr>"
  have rows: "3 \<le> length [[0], [1], [2 :: real]]" by simp
  have raises: "\<exists>(name, m)\<in>set (models (init_trainer 3 1 2)).
        (\<exists>e. cross_val_score ?lib m [[0], [1], [2]] [1, 2] 3 = Inl e) \<or>
        (\<exists>e. fst (model_fit ?lib m [[0], [1], [2]] [1, 2]) = Some e)"
    by (auto simp add: init_trainer_def)
  show ?thesis
    using train_models_catches [of ?lib "init_trainer 3 1 2" "[[0], [1], [2]]" "[1, 2]"]
      rows raises by blast
qed

text \<open>
  Claim C4, as the code has it. With fewer than 3 rows \<^verbatim>\<open>train_models\<close> returns \<^verbatim>\<open>None\<close>
  and sets \<^verbatim>\<open>is_trained\<close> to false, changing nothing else. With at least 3 rows and the three
  candidates \<^verbatim>\<open>random_forest\<close>, \<^verbatim>\<open>gradient_boosting\<close>, \<^verbatim>\<open>ridge\<close>, provided the 3-fold
  cross-validation of each candidate returns scores and each fit returns normally, it
  returns the three results (the mean absolute error of a candidate being minus the mean of
  its scores, its model the fitted one), sets \<^verbatim>\<open>is_trained\<close> to true and takes as best model
  a candidate whose mean cross-validated MAE is least among the three.
\<close>

theorem train_models_gating:
  "(length X < 3 \<longrightarrow> train_models lib self X y = (None, self\<lparr>is_trained := False\<rparr>)) \<and>
   (3 \<le> length X \<and>
    models self = [(''random_forest'', m1), (''gradient_boosting'', m2), (''ridge'', m3)] \<and>
    cross_val_score lib m1 X y 3 = Inr s1 \<and> s1 \<noteq> [] \<and> model_fit lib m1 X y = (None, m1') \<and>
    cross_val_score lib m2 X y 3 = Inr s2 \<and> s2 \<noteq> [] \<and> model_fit lib m2 X y = (None, m2') \<and>
    cross_val_score lib m3 X y 3 = Inr s3 \<and> s3 \<noteq> [] \<and> model_fit lib m3 X y = (None, m3')
    \<longrightarrow>
    (\<exists>results self' b e.
       train_models lib self X y = (Some results, self') \<and> is_trained self' \<and>
       map fst results = [''random_forest'', ''gradient_boosting'', ''ridge''] \<and>
       map (\<lambda>(n, r). cv_mae_mean r) results =
         [- (sum_list s1 / real (length s1)), - (sum_list s2 / real (length s2)),
          - (sum_list s3 / real (length s3))] \<and>
       map (\<lambda>(n, r). model r) results = [m1', m2', m3'] \<and>
       models self' = [(''random_forest'', m1'), (''gradient_boosting'', m2'), (''ridge'', m3')] \<and>
       (b, e) \<in> set results \<and>
       best_model_name self' = Some b \<and> best_model self' = Some (model e) \<and>
       (\<forall>(n, r)\<in>set results. cv_mae_mean e \<le> cv_mae_mean r)))"
proof (intro conjI impI)
  assume "length X < 3"
  then show "train_models lib self X y = (None, self\<lparr>is_trained := False\<rparr>)"
    by (rule train_models_insufficient)
next
  assume H: "3 \<le> length X \<and>
    models self = [(''random_forest'', m1), (''gradient_boosting'', m2), (''ridge'', m3)] \<and>
    cross_val_score lib m1 X y 3 = Inr s1 \<and> s1 \<noteq> [] \<and> model_fit lib m1 X y = (None, m1') \<and>
    cross_val_score lib m2 X y 3 = Inr s2 \<and> s2 \<noteq> [] \<and> model_fit lib m2 X y = (None, m2') \<and>
    cross_val_score lib m3 X y 3 = Inr s3 \<and> s3 \<noteq> [] \<and> model_fit lib m3 X y = (None, m3')"
  then have len: "3 \<le> length X" and min3: "min 3 (length X) = 3"
    and ms: "models self = [(''random_forest'', m1), (''gradient_boosting'', m2), (''ridge'', m3)]"
    by simp_all
  from H have cv1: "cross_val_score lib m1 X y (min 3 (length X)) = Inr s1" and n1: "s1 \<noteq> []"
    and f1: "model_fit lib m1 X y = (None, m1')" by simp_all
  from H have cv2: "cross_val_score lib m2 X y (min 3 (length X)) = Inr s2" and n2: "s2 \<noteq> []"
    and f2: "model_fit lib m2 X y = (None, m2')" by simp_all
  from H have cv3: "cross_val_score lib m3 X y (min 3 (length X)) = Inr s3" and n3: "s3 \<noteq> []"
    and f3: "model_fit lib m3 X y = (None, m3')" by simp_all
  define e1 where "e1 = \<lparr>cv_mae_mean = - (sum_list s1 / real (length s1)),
            cv_mae_std = sqrt (sum_list (map (\<lambda>x. (x - sum_list s1 / real (length s1))\<^sup>2) s1)
                               / real (length s1)),
            model = m1'\<rparr>"
  define e2 where "e2 = \<lparr>cv_mae_mean = - (sum_list s2 / real (length s2)),
            cv_mae_std = sqrt (sum_list (map (\<lambda>x. (x - sum_list s2 / real (length s2))\<^sup>2) s2)
                               / real (length s2)),
            model = m2'\<rparr>"
  define e3 where "e3 = \<lparr>cv_mae_mean = - (sum_list s3 / real (length s3)),
            cv_mae_std = sqrt (sum_list (map (\<lambda>x. (x - sum_list s3 / real (length s3))\<^sup>2) s3)
                               / real (length s3)),
            model = m3'\<rparr>"
  define results where
    "results = [(''random_forest'', e1), (''gradient_boosting'', e2), (''ridge'', e3)]"
  have tl: "train_loop lib (models self) X y [] =
      (Inr results, [(''random_forest'', m1'), (''gradient_boosting'', m2'), (''ridge'', m3')])"
    unfolding ms
    by (simp del: train_loop.simps(2)
        add: train_loop_step [OF cv1 n1 f1] train_loop_step [OF cv2 n2 f2]
        train_loop_step [OF cv3 n3 f3] results_def e1_def e2_def e3_def)
  obtain be where be: "min_by_key (\<lambda>(name, entry). cv_mae_mean entry) results = Inr be"
    using min_by_key_total [of results] by (auto simp add: results_def)
  obtain b e where bep: "be = (b, e)" by (cases be)
  have least: "(b, e) \<in> set results \<and>
      (\<forall>z\<in>set results. (\<lambda>(name, entry). cv_mae_mean entry) (b, e)
                           \<le> (\<lambda>(name, entry). cv_mae_mean entry) z)"
    using min_by_key_least [OF be] unfolding bep .
  define self' where "self' = self\<lparr>models := [(''random_forest'', m1'), (''gradient_boosting'', m2'),
         (''ridge'', m3')], best_model := Some (model e), best_model_name := Some b,
         is_trained := True\<rparr>"
  have r: "train_models lib self X y = (Some results, self')"
    using len tl be by (simp add: train_models_def bep self'_def)
  have "is_trained self'" "best_model_name self' = Some b" "best_model self' = Some (model e)"
    "models self' = [(''random_forest'', m1'), (''gradient_boosting'', m2'), (''ridge'', m3')]"
    by (simp_all add: self'_def)
  moreover have "map fst results = [''random_forest'', ''gradient_boosting'', ''ridge'']"
    "map (\<lambda>(n, r). cv_mae_mean r) results =
         [- (sum_list s1 / real (length s1)), - (sum_list s2 / real (length s2)),
          - (sum_list s3 / real (length s3))]"
    "map (\<lambda>(n, r). model r) results = [m1', m2', m3']"
    by (simp_all add: results_def e1_def e2_def e3_def)
  moreover have "(b, e) \<in> set results" using least by simp
  moreover have "\<forall>(n, r)\<in>set results. cv_mae_mean e \<le> cv_mae_mean r"
    using least by auto
  ultimately have all: "train_models lib self X y = (Some results, self') \<and> is_trained self' \<and>
       map fst results = [''random_forest'', ''gradient_boosting'', ''ridge''] \<and>
       map (\<lambda>(n, r). cv_mae_mean r) results =
         [- (sum_list s1 / real (length s1)), - (sum_list s2 / real (length s2)),
          - (sum_list s3 / real (length s3))] \<and>
       map (\<lambda>(n, r). model r) results = [m1', m2', m3'] \<and>
       models self' = [(''random_forest'', m1'), (''gradient_boosting'', m2'), (''ridge'', m3')] \<and>
       (b, e) \<in> set results \<and>
       best_model_name self' = Some b \<and> best_model self' = Some (model e) \<and>
       (\<forall>(n, r)\<in>set results. cv_mae_mean e \<le> cv_mae_mean r)"
    using r by (intro conjI)
  show "\<exists>results self' b e.
       train_models lib self X y = (Some results, self') \<and> is_trained self' \<and>
       map fst results = [''random_forest'', ''gradient_boosting'', ''ridge''] \<and>
       map (\<lambda>(n, r). cv_mae_mean r) results =
         [- (sum_list s1 / real (length s1)), - (sum_list s2 / real (length s2)),
          - (sum_list s3 / real (length s3))] \<and>
       map (\<lambda>(n, r). model r) results = [m1', m2', m3'] \<and>
       models self' = [(''random_forest'', m1'), (''gradient_boosting'', m2'), (''ridge'', m3')] \<and>
       (b, e) \<in> set results \<and>
       best_model_name self' = Some b \<and> best_model self' = Some (model e) \<and>
       (\<forall>(n, r)\<in>set results. cv_mae_mean e \<le> cv_mae_mean r)"
    by (intro exI) (rule all)
qed

text \<open>
  Three candidates whose cross-validated errors are 3, 1 and 2: the second,
  \<^verbatim>\<open>gradient_boosting\<close>, is selected.
\<close>

theorem train_models_gating_witness:
  "\<exists>results self'.
     train_models
       \<lparr>imputer_fit_transform = (\<lambda>(i::unit) df. Inl ValueError),
        imputer_transform = (\<lambda>i df. Inl ValueError),
        scaler_fit_transform = (\<lambda>(s::unit) M. Inl ValueError),
        scaler_transform = (\<lambda>s M. Inl ValueError),
        cross_val_score = (\<lambda>(m::nat) X y k.
           if length X = length y then Inr (replicate k (- real m)) else Inl ValueError),
        model_fit = (\<lambda>m X y. (None, m + 10)),
        model_predict = (\<lambda>m X. Inl NotFittedError)\<rparr>
       (init_trainer 3 1 2) [[0], [1], [2]] [1, 2, 3] = (Some results, self') \<and>
     is_trained self' \<and> best_model_name self' = Some ''gradient_boosting'' \<and>
     best_model self' = Some 11"
proof -
  let ?lib = "\<lparr>imputer_fit_transform = (\<lambda>(i::unit) df. Inl ValueError),
        imputer_transform = (\<lambda>i df. Inl ValueError),
        scaler_fit_transform = (\<lambda>(s::unit) M. Inl ValueError),
        scaler_transform = (\<lambda>s M. Inl ValueError),
        cross_val_score = (\<lambda>(m::nat) X y k.
           if length X = length y then Inr (replicate k (- real m)) else Inl ValueError),
        model_fit = (\<lambda>m X y. (None, m + 10)),
        model_predict = (\<lambda>m X. Inl NotFittedError)\<rparr>"
  have rep: "replicate 3 x = [x, x, x]" for x :: real
    by (simp add: numeral_3_eq_3)
  from train_models_gating [of "[[0], [1], [2]]" ?lib "init_trainer 3 1 2" "[1, 2, 3]"
      3 1 2 "[-3, -3, -3]" 13 "[-1, -1, -1]" 11 "[-2, -2, -2]" 12]
  obtain results self' b e where
    r: "train_models ?lib (init_trainer 3 1 2) [[0], [1], [2]] [1, 2, 3] = (Some results, self')"
    and t: "is_trained self'"
    and names: "map fst results = [''random_forest'', ''gradient_boosting'', ''ridge'']"
    and means: "map (\<lambda>(n, r). cv_mae_mean r) results = [3, 1, 2]"
    and fitted: "map (\<lambda>(n, r). model r) results = [13, 11, 12]"
    and mem: "(b, e) \<in> set results"
    and best: "best_model_name self' = Some b" "best_model self' = Some (model e)"
    and least: "\<forall>(n, r)\<in>set results. cv_mae_mean e \<le> cv_mae_mean r"
    by (auto simp add: init_trainer_def rep)
  obtain r1 r2 r3 where res: "results = [(''random_forest'', r1), (''gradient_boosting'', r2),
      (''ridge'', r3)]"
    using names by (auto simp add: map_eq_Cons_conv)
  have "cv_mae_mean r1 = 3" "cv_mae_mean r2 = 1" "cv_mae_mean r3 = 2"
      "model r1 = 13" "model r2 = 11" "model r3 = 12"
    using means fitted by (simp_all add: res)
  then have "b = ''gradient_boosting'' \<and> model e = 11"
    using mem least by (auto simp add: res)
  then show ?thesis using r t best by auto
qed

text \<open>
  Claim C4 as stated fails: with 3 rows and 2 targets the cross-validation raises, the
  handler of \<^verbatim>\<open>train_models\<close> catches the exception, and \<^verbatim>\<open>is_trained\<close> is false after a
  call with at least 3 rows.
\<close>

theorem train_models_gating_counterexample:
  "3 \<le> length [[0], [1], [2 :: real]] \<and>
   \<not> is_trained (snd (train_models
       \<lparr>imputer_fit_transform = (\<lambda>(i::unit) df. Inl ValueError),
        imputer_transform = (\<lambda>i df. Inl ValueError),
        scaler_fit_transform = (\<lambda>(s::unit) M. Inl ValueError),
        scaler_transform = (\<lambda>s M. Inl ValueError),
        cross_val_score = (\<lambda>(m::nat) X y k.
           if length X = length y then Inr (replicate k (- real m)) else Inl ValueError),
        model_fit = (\<lambda>m X y. (None, m + 10)),
        model_predict = (\<lambda>m X. Inl NotFittedError)\<rparr>
       (init_trainer 3 1 2) [[0], [1], [2]] [1, 2]))"
  by (simp add: train_models_def init_trainer_def Let_def)

section \<open>Properties of placement prediction\<close>

text \<open>
  The greedy loop of \<^verbatim>\<open>_adjust_placements\<close> changes only \<^verbatim>\<open>predicted_placement\<close>, which the
  second loop overwrites: the adjustment is the relabelling 1, 2, ... in list order.
\<close>

lemma relabel_greedy_loop: "relabel i (fst (greedy_loop rs used)) = relabel i rs"
proof (induction rs arbitrary: i used)
  case Nil
  show ?case by simp
next
  case (Cons r rs)
  show ?case
    using Cons.IH by (simp add: Let_def split: prod.split) (metis fst_conv)
qed

lemma adjust_placements_relabel: "adjust_placements results = relabel 0 results"
  using relabel_greedy_loop [of 0 results "{}"]
  by (simp add: adjust_placements_def case_prod_beta)

lemma length_relabel: "length (relabel i rs) = length rs"
  by (induction rs arbitrary: i) simp_all

lemma nth_relabel:
  "k < length rs \<Longrightarrow> relabel i rs ! k = (rs ! k)\<lparr>predicted_placement := int (i + k) + 1\<rparr>"
proof (induction rs arbitrary: i k)
  case Nil
  then show ?case by simp
next
  case (Cons r rs)
  show ?case
  proof (cases k)
    case 0
    then show ?thesis by simp
  next
    case (Suc k')
    then show ?thesis using Cons.IH [of k' "i + 1"] Cons.prems by simp
  qed
qed

lemma relabel_placements:
  "map predicted_placement (relabel i rs) = map (\<lambda>k. int k + 1) [i..<i + length rs]"
proof (rule nth_equalityI)
  show "length (map predicted_placement (relabel i rs)) =
        length (map (\<lambda>k. int k + 1) [i..<i + length rs])"
    by (simp add: length_relabel)
next
  fix k assume "k < length (map predicted_placement (relabel i rs))"
  then have k: "k < length rs" by (simp add: length_relabel)
  then show "map predicted_placement (relabel i rs) ! k =
             map (\<lambda>k. int k + 1) [i..<i + length rs] ! k"
    by (simp add: length_relabel nth_relabel)
qed

lemma placements_set: "(\<lambda>k. int k + 1) ` {0..<n} = {1..int n}"
proof (rule set_eqI)
  fix z :: int
  show "z \<in> (\<lambda>k. int k + 1) ` {0..<n} \<longleftrightarrow> z \<in> {1..int n}"
  proof
    assume "z \<in> (\<lambda>k. int k + 1) ` {0..<n}"
    then show "z \<in> {1..int n}" by auto
  next
    assume z: "z \<in> {1..int n}"
    then have "nat (z - 1) \<in> {0..<n}" "z = int (nat (z - 1)) + 1" by auto
    then show "z \<in> (\<lambda>k. int k + 1) ` {0..<n}" by blast
  qed
qed

text \<open>The results before sorting, and when building them succeeds.\<close>

lemma build_results_value:
  assumes "ts = drop i all" "length all \<le> length p" "length all \<le> length feats"
  shows "build_results i ts feats p =
           Inr (map (\<lambda>j. result_entry (all ! j) (feats ! j) (p ! j)) [i..<length all])"
  using assms
proof (induction ts arbitrary: i)
  case Nil
  then show ?case by simp
next
  case (Cons t ts)
  have i: "i < length all" using Cons.prems(1) by (metis drop_eq_Nil2 leI list.distinct(1))
  have t: "t = all ! i" and ts: "ts = drop (i + 1) all"
    using Cons.prems(1) i by (simp_all add: Cons_nth_drop_Suc [symmetric])
  have "build_results (i + 1) ts feats p =
           Inr (map (\<lambda>j. result_entry (all ! j) (feats ! j) (p ! j)) [i + 1..<length all])"
    using Cons.IH [OF ts Cons.prems(2,3)] .
  then show ?case using i Cons.prems(2,3) t
    by (simp add: upt_conv_Cons)
qed

lemma build_results_Inr_lengths:
  "build_results i ts feats p = Inr rs \<Longrightarrow>
     ts = [] \<or> (i + length ts \<le> length p \<and> i + length ts \<le> length feats)"
proof (induction ts arbitrary: i rs)
  case Nil
  then show ?case by simp
next
  case (Cons t ts)
  from Cons.prems have i: "i < length p" "i < length feats"
    by (auto split: if_splits)
  from Cons.prems i obtain rest where rest: "build_results (i + 1) ts feats p = Inr rest"
    by (cases "build_results (i + 1) ts feats p") auto
  from Cons.IH [OF rest] i show ?case by auto
qed

text \<open>
  Sorting positions by a key: the stable sort of the positions \<open>0, ..., n - 1\<close> orders them
  by key and, among equal keys, by position.
\<close>

lemma insort_key_map:
  "insort_key f (g x) (map g xs) = map g (insort_key (\<lambda>a. f (g a)) x xs)"
  by (induction xs) simp_all

lemma sort_key_map: "sort_key f (map g xs) = map g (sort_key (\<lambda>a. f (g a)) xs)"
  by (induction xs) (simp_all add: insort_key_map)

lemma insort_key_stable_order:
  fixes key :: "nat \<Rightarrow> int"
  assumes "sorted_wrt (\<lambda>a b. key a < key b \<or> key a = key b \<and> a < b) xs"
    and "\<forall>b\<in>set xs. y < b"
  shows "sorted_wrt (\<lambda>a b. key a < key b \<or> key a = key b \<and> a < b) (insort_key key y xs)"
  using assms
proof (induction xs)
  case Nil
  show ?case by simp
next
  case (Cons x xs)
  show ?case
  proof (cases "key y \<le> key x")
    case True
    have "key y < key b \<or> key y = key b \<and> y < b" if "b \<in> set (x # xs)" for b
    proof -
      have "key x \<le> key b" using Cons.prems(1) that by auto
      then have "key y \<le> key b" using True by simp
      moreover have "y < b" using Cons.prems(2) that by auto
      ultimately show ?thesis by auto
    qed
    then show ?thesis using True Cons.prems(1) by simp
  next
    case False
    have ih: "sorted_wrt (\<lambda>a b. key a < key b \<or> key a = key b \<and> a < b) (insort_key key y xs)"
      using Cons.IH Cons.prems by simp
    have "key x < key z \<or> key x = key z \<and> x < z" if "z \<in> set (insort_key key y xs)" for z
      using that False Cons.prems(1) by (auto simp add: set_insort_key)
    then show ?thesis using False ih by simp
  qed
qed

lemma sort_key_stable_order:
  fixes key :: "nat \<Rightarrow> int"
  assumes "sorted_wrt (<) ys"
  shows "sorted_wrt (\<lambda>a b. key a < key b \<or> key a = key b \<and> a < b) (sort_key key ys)"
  using assms
proof (induction ys)
  case Nil
  show ?case by simp
next
  case (Cons y ys)
  have "sorted_wrt (\<lambda>a b. key a < key b \<or> key a = key b \<and> a < b) (sort_key key ys)"
    using Cons by simp
  moreover have "\<forall>b\<in>set (sort_key key ys). y < b" using Cons.prems by simp
  ultimately show ?case by (simp add: insort_key_stable_order)
qed

lemma sort_key_upt_order:
  fixes key :: "nat \<Rightarrow> int"
  assumes "k < l" "l < n"
  shows "key (sort_key key [0..<n] ! k) < key (sort_key key [0..<n] ! l) \<or>
         key (sort_key key [0..<n] ! k) = key (sort_key key [0..<n] ! l) \<and>
         sort_key key [0..<n] ! k < sort_key key [0..<n] ! l"
proof -
  have "sorted_wrt (<) [0..<n]" by (simp add: sorted_wrt_upt)
  then have "sorted_wrt (\<lambda>a b. key a < key b \<or> key a = key b \<and> a < b) (sort_key key [0..<n])"
    by (rule sort_key_stable_order)
  then show ?thesis using assms by (simp add: sorted_wrt_iff_nth_less)
qed

text \<open>The fallback heuristic returns one score per row of a non-empty frame.\<close>

lemma fallback_prediction_total:
  assumes "df \<noteq> []"
  shows "\<exists>p. fallback_prediction df = Inr p \<and> length p = length df"
proof -
  define scores where "scores = map (\<lambda>r. dot [roster_stability r, avg_player_rating r, win_rate r,
                                      recent_form r, strength_of_schedule r]
                                     [0.15, 0.35, 0.5, 0.3, 0.2]) df"
  have ne: "set scores \<noteq> {}" "finite (set scores)" using assms by (simp_all add: scores_def)
  obtain s where s: "s \<in> set scores" using ne by (cases scores) auto
  have "Min (set scores) \<le> s" "s \<le> Max (set scores)" using s by simp_all
  then have pos: "Max (set scores) - Min (set scores) + 1 / 100000000 \<noteq> 0" by linarith
  show ?thesis
    using assms pos
    by (simp add: fallback_prediction_def Let_def np_divide_scalar_def scores_def [symmetric])
       (simp add: scores_def)
qed

lemma raw_predictions_total:
  assumes "df \<noteq> []" "length teams \<le> length df"
    and "is_trained trainer \<longrightarrow>
          (\<forall>m X. best_model trainer = Some m \<longrightarrow>
             model_predict lib m X = Inl NotFittedError \<or>
             (\<exists>p. model_predict lib m X = Inr p \<and> length teams \<le> length p))"
  shows "\<exists>p. raw_predictions lib trainer df X = Inr p \<and> length teams \<le> length p"
proof -
  obtain q where q: "fallback_prediction df = Inr q" "length q = length df"
    using fallback_prediction_total [OF assms(1)] by blast
  show ?thesis
  proof (cases "is_trained trainer")
    case False
    then show ?thesis using q assms(2) by (simp add: raw_predictions_def)
  next
    case True
    show ?thesis
    proof (cases "best_model trainer")
      case None
      then show ?thesis using True q assms(2)
        by (simp add: raw_predictions_def trainer_predict_def)
    next
      case (Some m)
      from assms(3) True Some
      consider "model_predict lib m X = Inl NotFittedError"
        | p where "model_predict lib m X = Inr p" "length teams \<le> length p"
        by blast
      then show ?thesis
      proof cases
        case 1
        then show ?thesis using True Some q assms(2)
          by (simp add: raw_predictions_def trainer_predict_def)
      next
        case 2
        then show ?thesis using True Some
          by (simp add: raw_predictions_def trainer_predict_def)
      qed
    qed
  qed
qed

lemma prepare_features_fit:
  assumes "imputer_fit_transform lib (imputer fe) 
             (map (\<lambda>feature.
                 \<lparr>roster_stability = roster_stability feature,
                  avg_player_rating = avg_player_rating feature,
                  avg_acs = avg_acs feature,
                  avg_kdr = avg_kdr feature,
                  avg_kast = avg_kast feature,
                  win_rate = win_rate feature,
                  recent_form = recent_form feature,
                  strength_of_schedule = strength_of_schedule feature,
                  tournament_results = tournament_results feature\<rparr>) feats) = Inr (i', M)"
    and "scaler_fit_transform lib (scaler fe) M = Inr (s', M')"
  shows "\<exists>e' df. prepare_features lib fe feats True = Inr (e', df, M') \<and> length df = length feats"
  using assms by (simp add: prepare_features_def Let_def)

lemma predict_placements_value:
  assumes ef: "extract_features clock teams = Inr feats"
    and pf: "prepare_features lib (feature_engineer self) feats True = Inr (e', df, X)"
    and rp: "raw_predictions lib (model_trainer self) df X = Inr p"
    and len: "length teams \<le> length p"
  shows "predict_placements lib self clock teams =
     Inr (relabel 0 (map (\<lambda>i. result_entry (teams ! i) (feats ! i) (p ! i))
                       (sort_key (\<lambda>i. py_round (p ! i)) [0..<length teams])),
          self\<lparr>feature_engineer := e'\<rparr>)"
proof -
  have lf: "length feats = length teams"
    using extract_features_total [of clock teams] ef by auto
  have br: "build_results 0 teams feats p =
      Inr (map (\<lambda>i. result_entry (teams ! i) (feats ! i) (p ! i)) [0..<length teams])"
    using build_results_value [of teams 0 teams p feats] len lf by simp
  have key: "(\<lambda>i. predicted_placement (result_entry (teams ! i) (feats ! i) (p ! i)))
      = (\<lambda>i. py_round (p ! i))"
    by (simp add: result_entry_def)
  show ?thesis
    by (simp add: predict_placements_def ef pf rp br adjust_placements_relabel sort_key_map key)
qed

lemma predict_placements_Inr:
  assumes "predict_placements lib self clock teams = Inr (rs, self')"
  shows "\<exists>feats e' df X p.
     extract_features clock teams = Inr feats \<and>
     prepare_features lib (feature_engineer self) feats True = Inr (e', df, X) \<and>
     raw_predictions lib (model_trainer self) df X = Inr p \<and>
     length teams \<le> length p"
proof -
  obtain feats where ef: "extract_features clock teams = Inr feats"
    using extract_features_total by blast
  from assms ef obtain e' df X where
    pf: "prepare_features lib (feature_engineer self) feats True = Inr (e', df, X)"
    by (cases "prepare_features lib (feature_engineer self) feats True")
       (auto simp add: predict_placements_def)
  from assms ef pf obtain p where rp: "raw_predictions lib (model_trainer self) df X = Inr p"
    by (cases "raw_predictions lib (model_trainer self) df X")
       (auto simp add: predict_placements_def)
  from assms ef pf rp obtain results where br: "build_results 0 teams feats p = Inr results"
    by (cases "build_results 0 teams feats p") (auto simp add: predict_placements_def)
  have "length teams \<le> length p"
    using build_results_Inr_lengths [OF br] by auto
  then show ?thesis using ef pf rp by blast
qed

lemma predict_placements_returns:
  assumes ne: "teams \<noteq> []"
    and prep: "\<forall>df. length df = length teams \<longrightarrow>
        (\<exists>i' M s' M'.
           imputer_fit_transform lib (imputer (feature_engineer self)) df = Inr (i', M) \<and>
           scaler_fit_transform lib (scaler (feature_engineer self)) M = Inr (s', M'))"
    and pred: "is_trained (model_trainer self) \<longrightarrow>
          (\<forall>m X. best_model (model_trainer self) = Some m \<longrightarrow>
             model_predict lib m X = Inl NotFittedError \<or>
             (\<exists>p. model_predict lib m X = Inr p \<and> length teams \<le> length p))"
  shows "\<exists>feats e' df X p.
     extract_features clock teams = Inr feats \<and>
     prepare_features lib (feature_engineer self) feats True = Inr (e', df, X) \<and>
     raw_predictions lib (model_trainer self) df X = Inr p \<and>
     length teams \<le> length p"
proof -
  obtain feats where ef: "extract_features clock teams = Inr feats"
    and lf: "length feats = length teams"
    using extract_features_total by blast
  let ?df = "map (\<lambda>feature.
                 \<lparr>roster_stability = roster_stability feature,
                  avg_player_rating = avg_player_rating feature,
                  avg_acs = avg_acs feature,
                  avg_kdr = avg_kdr feature,
                  avg_kast = avg_kast feature,
                  win_rate = win_rate feature,
                  recent_form = recent_form feature,
                  strength_of_schedule = strength_of_schedule feature,
                  tournament_results = tournament_results feature\<rparr>) feats"
  have "length ?df = length teams" using lf by simp
  with prep obtain i' M s' M' where
    "imputer_fit_transform lib (imputer (feature_engineer self)) ?df = Inr (i', M)"
    "scaler_fit_transform lib (scaler (feature_engineer self)) M = Inr (s', M')"
    by blast
  from prepare_features_fit [OF this] obtain e' df where
    pf: "prepare_features lib (feature_engineer self) feats True = Inr (e', df, M')"
    and ld: "length df = length feats" by blast
  have "df \<noteq> []" using ld lf ne by auto
  moreover have "length teams \<le> length df" using ld lf by simp
  ultimately obtain p where "raw_predictions lib (model_trainer self) df M' = Inr p"
    "length teams \<le> length p"
    using raw_predictions_total [OF _ _ pred] by blast
  then show ?thesis using ef pf by blast
qed

lemma prepare_features_length:
  assumes "prepare_features lib fe feats True = Inr (e', df, X)"
  shows "length df = length feats"
  using assms
  by (auto simp add: prepare_features_def Let_def bind_result_def split: sum.splits prod.splits)

lemma raw_predictions_returns:
  assumes "df \<noteq> []" "length teams \<le> length df"
    and "is_trained trainer \<longrightarrow>
          (\<forall>m. best_model trainer = Some m \<longrightarrow>
             model_predict lib m X = Inl NotFittedError \<or>
             (\<exists>p. model_predict lib m X = Inr p \<and> length teams \<le> length p))"
  shows "\<exists>p. raw_predictions lib trainer df X = Inr p \<and> length teams \<le> length p"
proof -
  obtain q where q: "fallback_prediction df = Inr q" "length q = length df"
    using fallback_prediction_total [OF assms(1)] by blast
  show ?thesis
  proof (cases "is_trained trainer")
    case False
    then show ?thesis using q assms(2) by (simp add: raw_predictions_def)
  next
    case True
    show ?thesis
    proof (cases "best_model trainer")
      case None
      then show ?thesis using True q assms(2)
        by (simp add: raw_predictions_def trainer_predict_def)
    next
      case (Some m)
      from assms(3) True Some
      consider "model_predict lib m X = Inl NotFittedError"
        | p where "model_predict lib m X = Inr p" "length teams \<le> length p"
        by blast
      then show ?thesis
      proof cases
        case 1
        then show ?thesis using True Some q assms(2)
          by (simp add: raw_predictions_def trainer_predict_def)
      next
        case 2
        then show ?thesis using True Some
          by (simp add: raw_predictions_def trainer_predict_def)
      qed
    qed
  qed
qed

text \<open>The features of two teams without players, matches or formation date.\<close>

lemma two_bare_teams_features:
  "extract_features (\<lambda>i. 0)
     [\<lparr>team_ident = ''a'', team_name = ''Alpha'', team_region = ''BR'', players = [],
       formed_date = None, recent_matches = []\<rparr>,
      \<lparr>team_ident = ''b'', team_name = ''Bravo'', team_region = ''NA'', players = [],
       formed_date = None, recent_matches = []\<rparr>]
   = Inr [\<lparr>roster_stability = 1 / 2, avg_player_rating = 0,
      avg_acs = 0, avg_kdr = 0, avg_kast = 0, win_rate = 1 / 2, recent_form = 1 / 2,
      strength_of_schedule = 1 / 2, tournament_results = 1 / 2, team_id = ''a'', target = None\<rparr>,
      \<lparr>roster_stability = 1 / 2, avg_player_rating = 0,
      avg_acs = 0, avg_kdr = 0, avg_kast = 0, win_rate = 1 / 2, recent_form = 1 / 2,
      strength_of_schedule = 1 / 2, tournament_results = 1 / 2, team_id = ''b'', target = None\<rparr>]"
  by (simp add: extract_features_def extract_team_features_def calculate_roster_stability_def
      calculate_individual_performance_def calculate_team_performance_def
      calculate_tournament_performance_def)

text \<open>
  Claim C2, as the code has it. Take a non-empty batch of \<open>N\<close> teams with extracted features
  \<open>feats\<close> (the extraction always returns). If \<^verbatim>\<open>prepare_features\<close> returns for this batch,
  with the matrix \<open>X_processed\<close>, and, in case the trainer is trained and has a best model,
  that model's \<^verbatim>\<open>predict\<close> on \<open>X_processed\<close> either raises \<^verbatim>\<open>NotFittedError\<close> or returns
  a score for every team, then \<^verbatim>\<open>predict_placements\<close> returns \<open>N\<close> results whose placements
  are 1, ..., \<open>N\<close> in list order: pairwise different and forming the set \<open>{1, ..., N}\<close>.
  Nothing is assumed of the model when the trainer is untrained or has no best model: the
  fallback heuristic then supplies the raw scores.
\<close>

theorem predict_placements_dense:
  assumes ne: "teams \<noteq> []"
    and ef: "extract_features clock teams = Inr feats"
    and pf: "prepare_features lib (feature_engineer self) feats True
               = Inr (engineer', df, X_processed)"
    and pred: "is_trained (model_trainer self) \<longrightarrow>
          (\<forall>m. best_model (model_trainer self) = Some m \<longrightarrow>
             model_predict lib m X_processed = Inl NotFittedError \<or>
             (\<exists>p. model_predict lib m X_processed = Inr p \<and> length teams \<le> length p))"
  shows "\<exists>rs. predict_placements lib self clock teams
                 = Inr (rs, self\<lparr>feature_engineer := engineer'\<rparr>) \<and>
           length rs = length teams \<and>
           map predicted_placement rs = map (\<lambda>k. int k + 1) [0..<length teams] \<and>
           distinct (map predicted_placement rs) \<and>
           set (map predicted_placement rs) = {1..int (length teams)}"
proof -
  have lf: "length feats = length teams"
    using extract_features_total [of clock teams] ef by auto
  have ld: "length df = length feats" using prepare_features_length [OF pf] .
  have "df \<noteq> []" using ld lf ne by auto
  moreover have "length teams \<le> length df" using ld lf by simp
  ultimately obtain p where rp: "raw_predictions lib (model_trainer self) df X_processed = Inr p"
    and len: "length teams \<le> length p"
    using raw_predictions_returns [OF _ _ pred] by blast
  define rs where "rs = relabel 0 (map (\<lambda>i. result_entry (teams ! i) (feats ! i) (p ! i))
                       (sort_key (\<lambda>i. py_round (p ! i)) [0..<length teams]))"
  have r: "predict_placements lib self clock teams
             = Inr (rs, self\<lparr>feature_engineer := engineer'\<rparr>)"
    unfolding rs_def by (rule predict_placements_value [OF ef pf rp len])
  have l: "length rs = length teams" by (simp add: rs_def length_relabel)
  have m: "map predicted_placement rs = map (\<lambda>k. int k + 1) [0..<length teams]"
    using relabel_placements [of 0] by (simp add: rs_def)
  have d: "distinct (map predicted_placement rs)"
    unfolding m by (simp add: distinct_map inj_on_def)
  have s: "set (map predicted_placement rs) = {1..int (length teams)}"
    unfolding m using placements_set [of "length teams"] by simp
  show ?thesis using r l m d s by blast
qed

text \<open>
  Two teams and a model that wants 9 columns and returns the row sums: once with a trainer
  trained on 9 columns, once with an untrained trainer.
\<close>

theorem predict_placements_dense_witness:
  "(\<exists>rs self'.
     predict_placements
       \<lparr>imputer_fit_transform = (\<lambda>(i::unit) df. Inr (i, map (\<lambda>r.
          [roster_stability r, avg_player_rating r, avg_acs r, avg_kdr r, avg_kast r,
           win_rate r, recent_form r, strength_of_schedule r, tournament_results r]) df)),
        imputer_transform = (\<lambda>i df. Inr (map (\<lambda>r.
          [roster_stability r, avg_player_rating r, avg_acs r, avg_kdr r, avg_kast r,
           win_rate r, recent_form r, strength_of_schedule r, tournament_results r]) df)),
        scaler_fit_transform = (\<lambda>(s::unit) M. Inr (s, M)),
        scaler_transform = (\<lambda>s M. Inr M),
        cross_val_score = (\<lambda>(m::nat) X y k. Inr (replicate k 0)),
        model_fit = (\<lambda>m X y. (None, m)),
        model_predict = (\<lambda>m X.
          if X \<noteq> [] \<and> list_all (\<lambda>row. length row = m) X then Inr (map sum_list X)
          else Inl ValueError)\<rparr>
       \<lparr>model_trainer = \<lparr>models = [(''ridge'', 9)], best_model = Some 9,
                          best_model_name = Some ''ridge'', is_trained = True\<rparr>,
        feature_engineer = \<lparr>scaler = (), imputer = (), is_fitted = False\<rparr>\<rparr>
       (\<lambda>i. 0)
       [\<lparr>team_ident = ''a'', team_name = ''Alpha'', team_region = ''BR'', players = [],
         formed_date = None, recent_matches = []\<rparr>,
        \<lparr>team_ident = ''b'', team_name = ''Bravo'', team_region = ''NA'', players = [],
         formed_date = None, recent_matches = []\<rparr>]
     = Inr (rs, self') \<and>
     map predicted_placement rs = [1, 2]) \<and>
   (\<exists>rs self'.
     predict_placements
       \<lparr>imputer_fit_transform = (\<lambda>(i::unit) df. Inr (i, map (\<lambda>r.
          [roster_stability r, avg_player_rating r, avg_acs r, avg_kdr r, avg_kast r,
           win_rate r, recent_form r, strength_of_schedule r, tournament_results r]) df)),
        imputer_transform = (\<lambda>i df. Inr (map (\<lambda>r.
          [roster_stability r, avg_player_rating r, avg_acs r, avg_kdr r, avg_kast r,
           win_rate r, recent_form r, strength_of_schedule r, tournament_results r]) df)),
        scaler_fit_transform = (\<lambda>(s::unit) M. Inr (s, M)),
        scaler_transform = (\<lambda>s M. Inr M),
        cross_val_score = (\<lambda>(m::nat) X y k. Inr (replicate k 0)),
        model_fit = (\<lambda>m X y. (None, m)),
        model_predict = (\<lambda>m X.
          if X \<noteq> [] \<and> list_all (\<lambda>row. length row = m) X then Inr (map sum_list X)
          else Inl ValueError)\<rparr>
       \<lparr>model_trainer = init_trainer 9 9 9,
        feature_engineer = \<lparr>scaler = (), imputer = (), is_fitted = False\<rparr>\<rparr>
       (\<lambda>i. 0)
       [\<lparr>team_ident = ''a'', team_name = ''Alpha'', team_region = ''BR'', players = [],
         formed_date = None, recent_matches = []\<rparr>,
        \<lparr>team_ident = ''b'', team_name = ''Bravo'', team_region = ''NA'', players = [],
         formed_date = None, recent_matches = []\<rparr>]
     = Inr (rs, self') \<and>
     map predicted_placement rs = [1, 2])"
proof -
  let ?lib = "\<lparr>imputer_fit_transform = (\<lambda>(i::unit) df. Inr (i, map (\<lambda>r.
          [roster_stability r, avg_player_rating r, avg_acs r, avg_kdr r, avg_kast r,
           win_rate r, recent_form r, strength_of_schedule r, tournament_results r]) df)),
        imputer_transform = (\<lambda>i df. Inr (map (\<lambda>r.
          [roster_stability r, avg_player_rating r, avg_acs r, avg_kdr r, avg_kast r,
           win_rate r, recent_form r, strength_of_schedule r, tournament_results r]) df)),
        scaler_fit_transform = (\<lambda>(s::unit) M. Inr (s, M)),
        scaler_transform = (\<lambda>s M. Inr M),
        cross_val_score = (\<lambda>(m::nat) X y k. Inr (replicate k 0)),
        model_fit = (\<lambda>m X y. (None, m)),
        model_predict = (\<lambda>m X.
          if X \<noteq> [] \<and> list_all (\<lambda>row. length row = m) X then Inr (map sum_list X)
          else Inl ValueError)\<rparr>"
  let ?trained = "\<lparr>model_trainer = \<lparr>models = [(''ridge'', 9)], best_model = Some 9,
                          best_model_name = Some ''ridge'', is_trained = True\<rparr>,
        feature_engineer = \<lparr>scaler = (), imputer = (), is_fitted = False\<rparr>\<rparr>"
  let ?untrained = "\<lparr>model_trainer = init_trainer 9 9 9,
        feature_engineer = \<lparr>scaler = (), imputer = (), is_fitted = False\<rparr>\<rparr>"
  let ?teams = "[\<lparr>team_ident = ''a'', team_name = ''Alpha'', team_region = ''BR'', players = [],
         formed_date = None, recent_matches = []\<rparr>,
        \<lparr>team_ident = ''b'', team_name = ''Bravo'', team_region = ''NA'', players = [],
         formed_date = None, recent_matches = []\<rparr>]"
  let ?feats = "[\<lparr>roster_stability = 1 / 2, avg_player_rating = 0,
      avg_acs = 0, avg_kdr = 0, avg_kast = 0, win_rate = 1 / 2, recent_form = 1 / 2,
      strength_of_schedule = 1 / 2, tournament_results = 1 / 2, team_id = ''a'', target = None\<rparr>,
      \<lparr>roster_stability = 1 / 2, avg_player_rating = 0,
      avg_acs = 0, avg_kdr = 0, avg_kast = 0, win_rate = 1 / 2, recent_form = 1 / 2,
      strength_of_schedule = 1 / 2, tournament_results = 1 / 2, team_id = ''b'', target = None\<rparr>]"
  let ?df = "[\<lparr>roster_stability = 1 / 2, avg_player_rating = 0,
      avg_acs = 0, avg_kdr = 0, avg_kast = 0, win_rate = 1 / 2, recent_form = 1 / 2,
      strength_of_schedule = 1 / 2, tournament_results = 1 / 2\<rparr>,
      \<lparr>roster_stability = 1 / 2, avg_player_rating = 0,
      avg_acs = 0, avg_kdr = 0, avg_kast = 0, win_rate = 1 / 2, recent_form = 1 / 2,
      strength_of_schedule = 1 / 2, tournament_results = 1 / 2\<rparr>]"
  let ?X = "[[1 / 2, 0, 0, 0, 0, 1 / 2, 1 / 2, 1 / 2, 1 / 2],
             [1 / 2, 0, 0, 0, 0, 1 / 2, 1 / 2, 1 / 2, 1 / 2 :: real]]"
  let ?fitted = "\<lparr>scaler = (), imputer = (), is_fitted = True\<rparr>"
  have ne: "?teams \<noteq> []" by simp
  have ef: "extract_features (\<lambda>i. 0) ?teams = Inr ?feats"
    by (rule two_bare_teams_features)
  have pf1: "prepare_features ?lib (feature_engineer ?trained) ?feats True = Inr (?fitted, ?df, ?X)"
    by (simp add: prepare_features_def)
  have pf2: "prepare_features ?lib (feature_engineer ?untrained) ?feats True = Inr (?fitted, ?df, ?X)"
    by (simp add: prepare_features_def)
  have pred1: "is_trained (model_trainer ?trained) \<longrightarrow>
          (\<forall>m. best_model (model_trainer ?trained) = Some m \<longrightarrow>
             model_predict ?lib m ?X = Inl NotFittedError \<or>
             (\<exists>p. model_predict ?lib m ?X = Inr p \<and> length ?teams \<le> length p))"
    by simp
  have pred2: "is_trained (model_trainer ?untrained) \<longrightarrow>
          (\<forall>m. best_model (model_trainer ?untrained) = Some m \<longrightarrow>
             model_predict ?lib m ?X = Inl NotFittedError \<or>
             (\<exists>p. model_predict ?lib m ?X = Inr p \<and> length ?teams \<le> length p))"
    by (simp add: init_trainer_def)
  have upt2: "[0..<2] = [0, Suc 0]" by (simp add: upt_conv_Cons numeral_2_eq_2)
  have one: "\<exists>rs self'. predict_placements ?lib ?trained (\<lambda>i. 0) ?teams = Inr (rs, self') \<and>
     map predicted_placement rs = [1, 2]"
    using predict_placements_dense [OF ne ef pf1 pred1] by (auto simp add: upt2)
  have two: "\<exists>rs self'. predict_placements ?lib ?untrained (\<lambda>i. 0) ?teams = Inr (rs, self') \<and>
     map predicted_placement rs = [1, 2]"
    using predict_placements_dense [OF ne ef pf2 pred2] by (auto simp add: upt2)
  show ?thesis using one two by (rule conjI)
qed

text \<open>
  Claim C2 as stated fails: the handler of \<^verbatim>\<open>predict_placements\<close> catches
  \<^verbatim>\<open>NotFittedError\<close> only. With a trainer whose best model was trained on 5 columns, the
  model's \<^verbatim>\<open>predict\<close> rejects the 9 columns of the batch with \<^verbatim>\<open>ValueError\<close>, which
  propagates: the call on two teams returns no results.
\<close>

theorem predict_placements_dense_counterexample:
  "predict_placements
     \<lparr>imputer_fit_transform = (\<lambda>(i::unit) df. Inr (i, map (\<lambda>r.
          [roster_stability r, avg_player_rating r, avg_acs r, avg_kdr r, avg_kast r,
           win_rate r, recent_form r, strength_of_schedule r, tournament_results r]) df)),
      imputer_transform = (\<lambda>i df. Inr (map (\<lambda>r.
          [roster_stability r, avg_player_rating r, avg_acs r, avg_kdr r, avg_kast r,
           win_rate r, recent_form r, strength_of_schedule r, tournament_results r]) df)),
      scaler_fit_transform = (\<lambda>(s::unit) M. Inr (s, M)),
      scaler_transform = (\<lambda>s M. Inr M),
      cross_val_score = (\<lambda>(m::nat) X y k. Inr (replicate k 0)),
      model_fit = (\<lambda>m X y. (None, m)),
      model_predict = (\<lambda>m X.
          if X \<noteq> [] \<and> list_all (\<lambda>row. length row = m) X then Inr (map sum_list X)
          else Inl ValueError)\<rparr>
     \<lparr>model_trainer = \<lparr>models = [(''ridge'', 5)], best_model = Some 5,
                        best_model_name = Some ''ridge'', is_trained = True\<rparr>,
      feature_engineer = \<lparr>scaler = (), imputer = (), is_fitted = False\<rparr>\<rparr>
     (\<lambda>i. 0)
     [\<lparr>team_ident = ''a'', team_name = ''Alpha'', team_region = ''BR'', players = [],
       formed_date = None, recent_matches = []\<rparr>,
      \<lparr>team_ident = ''b'', team_name = ''Bravo'', team_region = ''NA'', players = [],
       formed_date = None, recent_matches = []\<rparr>]
   = Inl ValueError"
  by (simp add: predict_placements_def two_bare_teams_features prepare_features_def
      raw_predictions_def trainer_predict_def)

text \<open>
  Claim C1, as the code has it. \<^verbatim>\<open>predict_placements\<close> returns under the conditions of
  claim C2, and whenever it returns for \<open>N\<close> teams with raw scores \<open>p\<close>, its \<open>k\<close>-th result is
  the entry of the team at position \<open>idx ! k\<close> of the input with placement \<open>k + 1\<close>, where
  \<open>idx\<close> is a permutation of the positions \<open>0, ..., N - 1\<close>, in ascending order of the
  rounded score \<^verbatim>\<open>int(round(p[i]))\<close> and, among equal rounded scores, in the order of the
  input list.
\<close>

theorem predict_placements_ranking:
  "(teams \<noteq> [] \<and>
    (\<forall>df. length df = length teams \<longrightarrow>
        (\<exists>i' M s' M'.
           imputer_fit_transform lib (imputer (feature_engineer self)) df = Inr (i', M) \<and>
           scaler_fit_transform lib (scaler (feature_engineer self)) M = Inr (s', M'))) \<and>
    (is_trained (model_trainer self) \<longrightarrow>
          (\<forall>m X. best_model (model_trainer self) = Some m \<longrightarrow>
             model_predict lib m X = Inl NotFittedError \<or>
             (\<exists>p. model_predict lib m X = Inr p \<and> length teams \<le> length p)))
    \<longrightarrow> (\<exists>rs self'. predict_placements lib self clock teams = Inr (rs, self'))) \<and>
   (\<forall>rs self'. predict_placements lib self clock teams = Inr (rs, self') \<longrightarrow>
      (\<exists>feats engineer' df X p idx.
         extract_features clock teams = Inr feats \<and>
         prepare_features lib (feature_engineer self) feats True = Inr (engineer', df, X) \<and>
         raw_predictions lib (model_trainer self) df X = Inr p \<and>
         length teams \<le> length p \<and>
         idx = sort_key (\<lambda>i. py_round (p ! i)) [0..<length teams] \<and>
         length idx = length teams \<and> distinct idx \<and> set idx = {0..<length teams} \<and>
         length rs = length teams \<and>
         (\<forall>k<length teams.
            rs ! k = (result_entry (teams ! (idx ! k)) (feats ! (idx ! k)) (p ! (idx ! k)))
                       \<lparr>predicted_placement := int k + 1\<rparr>) \<and>
         (\<forall>k l. k < l \<and> l < length teams \<longrightarrow>
            py_round (p ! (idx ! k)) < py_round (p ! (idx ! l)) \<or>
            py_round (p ! (idx ! k)) = py_round (p ! (idx ! l)) \<and> idx ! k < idx ! l)))"
proof (intro conjI impI allI)
  assume H: "teams \<noteq> [] \<and>
    (\<forall>df. length df = length teams \<longrightarrow>
        (\<exists>i' M s' M'.
           imputer_fit_transform lib (imputer (feature_engineer self)) df = Inr (i', M) \<and>
           scaler_fit_transform lib (scaler (feature_engineer self)) M = Inr (s', M'))) \<and>
    (is_trained (model_trainer self) \<longrightarrow>
          (\<forall>m X. best_model (model_trainer self) = Some m \<longrightarrow>
             model_predict lib m X = Inl NotFittedError \<or>
             (\<exists>p. model_predict lib m X = Inr p \<and> length teams \<le> length p)))"
  then obtain feats e' df X p where ef: "extract_features clock teams = Inr feats"
    and pf: "prepare_features lib (feature_engineer self) feats True = Inr (e', df, X)"
    and rp: "raw_predictions lib (model_trainer self) df X = Inr p"
    and len: "length teams \<le> length p"
    using predict_placements_returns [of teams lib self clock] by blast
  show "\<exists>rs self'. predict_placements lib self clock teams = Inr (rs, self')"
    using predict_placements_value [OF ef pf rp len] by blast
next
  fix rs self'
  assume r: "predict_placements lib self clock teams = Inr (rs, self')"
  obtain feats e' df X p where ef: "extract_features clock teams = Inr feats"
    and pf: "prepare_features lib (feature_engineer self) feats True = Inr (e', df, X)"
    and rp: "raw_predictions lib (model_trainer self) df X = Inr p"
    and len: "length teams \<le> length p"
    using predict_placements_Inr [OF r] by blast
  define idx where "idx = sort_key (\<lambda>i. py_round (p ! i)) [0..<length teams]"
  have rs: "rs = relabel 0 (map (\<lambda>i. result_entry (teams ! i) (feats ! i) (p ! i)) idx)"
    using predict_placements_value [OF ef pf rp len] r by (simp add: idx_def)
  have li: "length idx = length teams" and di: "distinct idx"
    and si: "set idx = {0..<length teams}"
    by (simp_all add: idx_def)
  have lr: "length rs = length teams" by (simp add: rs length_relabel li)
  have nth: "\<forall>k<length teams.
            rs ! k = (result_entry (teams ! (idx ! k)) (feats ! (idx ! k)) (p ! (idx ! k)))
                       \<lparr>predicted_placement := int k + 1\<rparr>"
    by (simp add: rs nth_relabel li)
  have ord: "\<forall>k l. k < l \<and> l < length teams \<longrightarrow>
            py_round (p ! (idx ! k)) < py_round (p ! (idx ! l)) \<or>
            py_round (p ! (idx ! k)) = py_round (p ! (idx ! l)) \<and> idx ! k < idx ! l"
    unfolding idx_def
    using sort_key_upt_order [of _ _ "length teams" "\<lambda>i. py_round (p ! i)"] by blast
  have all: "extract_features clock teams = Inr feats \<and>
         prepare_features lib (feature_engineer self) feats True = Inr (e', df, X) \<and>
         raw_predictions lib (model_trainer self) df X = Inr p \<and>
         length teams \<le> length p \<and>
         idx = sort_key (\<lambda>i. py_round (p ! i)) [0..<length teams] \<and>
         length idx = length teams \<and> distinct idx \<and> set idx = {0..<length teams} \<and>
         length rs = length teams \<and>
         (\<forall>k<length teams.
            rs ! k = (result_entry (teams ! (idx ! k)) (feats ! (idx ! k)) (p ! (idx ! k)))
                       \<lparr>predicted_placement := int k + 1\<rparr>) \<and>
         (\<forall>k l. k < l \<and> l < length teams \<longrightarrow>
            py_round (p ! (idx ! k)) < py_round (p ! (idx ! l)) \<or>
            py_round (p ! (idx ! k)) = py_round (p ! (idx ! l)) \<and> idx ! k < idx ! l)"
    using ef pf rp len li di si lr nth ord idx_def by (intro conjI)
  show "\<exists>feats engineer' df X p idx.
         extract_features clock teams = Inr feats \<and>
         prepare_features lib (feature_engineer self) feats True = Inr (engineer', df, X) \<and>
         raw_predictions lib (model_trainer self) df X = Inr p \<and>
         length teams \<le> length p \<and>
         idx = sort_key (\<lambda>i. py_round (p ! i)) [0..<length teams] \<and>
         length idx = length teams \<and> distinct idx \<and> set idx = {0..<length teams} \<and>
         length rs = length teams \<and>
         (\<forall>k<length teams.
            rs ! k = (result_entry (teams ! (idx ! k)) (feats ! (idx ! k)) (p ! (idx ! k)))
                       \<lparr>predicted_placement := int k + 1\<rparr>) \<and>
         (\<forall>k l. k < l \<and> l < length teams \<longrightarrow>
            py_round (p ! (idx ! k)) < py_round (p ! (idx ! l)) \<or>
            py_round (p ! (idx ! k)) = py_round (p ! (idx ! l)) \<and> idx ! k < idx ! l)"
    by (intro exI) (rule all)
qed

text \<open>
  Raw scores 2.5 for Alpha and 1.2 for Bravo, which round to 2 and 1: Bravo is placed first.
\<close>

theorem predict_placements_ranking_witness:
  "\<exists>rs self'.
     predict_placements
       \<lparr>imputer_fit_transform = (\<lambda>(i::unit) df. Inr (i, map (\<lambda>r. [roster_stability r]) df)),
        imputer_transform = (\<lambda>i df. Inr (map (\<lambda>r. [roster_stability r]) df)),
        scaler_fit_transform = (\<lambda>(s::unit) M. Inr (s, M)),
        scaler_transform = (\<lambda>s M. Inr M),
        cross_val_score = (\<lambda>(m::unit) X y k. Inr (replicate k 0)),
        model_fit = (\<lambda>m X y. (None, m)),
        model_predict = (\<lambda>m X. Inr [5 / 2, 6 / 5])\<rparr>
       \<lparr>model_trainer = \<lparr>models = [(''ridge'', ())], best_model = Some (),
                          best_model_name = Some ''ridge'', is_trained = True\<rparr>,
        feature_engineer = \<lparr>scaler = (), imputer = (), is_fitted = False\<rparr>\<rparr>
       (\<lambda>i. 0)
       [\<lparr>team_ident = ''a'', team_name = ''Alpha'', team_region = ''BR'', players = [],
         formed_date = None, recent_matches = []\<rparr>,
        \<lparr>team_ident = ''b'', team_name = ''Bravo'', team_region = ''NA'', players = [],
         formed_date = None, recent_matches = []\<rparr>]
     = Inr (rs, self') \<and>
     team (rs ! 0) = ''Bravo'' \<and> predicted_placement (rs ! 0) = 1 \<and>
     team (rs ! 1) = ''Alpha'' \<and> predicted_placement (rs ! 1) = 2"
proof -
  let ?lib = "\<lparr>imputer_fit_transform = (\<lambda>(i::unit) df. Inr (i, map (\<lambda>r. [roster_stability r]) df)),
        imputer_transform = (\<lambda>i df. Inr (map (\<lambda>r. [roster_stability r]) df)),
        scaler_fit_transform = (\<lambda>(s::unit) M. Inr (s, M)),
        scaler_transform = (\<lambda>s M. Inr M),
        cross_val_score = (\<lambda>(m::unit) X y k. Inr (replicate k 0)),
        model_fit = (\<lambda>m X y. (None, m)),
        model_predict = (\<lambda>m X. Inr [5 / 2, 6 / 5])\<rparr>"
  let ?self = "\<lparr>model_trainer = \<lparr>models = [(''ridge'', ())], best_model = Some (),
                          best_model_name = Some ''ridge'', is_trained = True\<rparr>,
        feature_engineer = \<lparr>scaler = (), imputer = (), is_fitted = False\<rparr>\<rparr>"
  let ?teams = "[\<lparr>team_ident = ''a'', team_name = ''Alpha'', team_region = ''BR'', players = [],
         formed_date = None, recent_matches = []\<rparr>,
        \<lparr>team_ident = ''b'', team_name = ''Bravo'', team_region = ''NA'', players = [],
         formed_date = None, recent_matches = []\<rparr>]"
  note inst = predict_placements_ranking [of ?teams ?lib ?self "\<lambda>i. 0"]
  have hyp: "?teams \<noteq> [] \<and>
    (\<forall>df. length df = length ?teams \<longrightarrow>
        (\<exists>i' M s' M'.
           imputer_fit_transform ?lib (imputer (feature_engineer ?self)) df = Inr (i', M) \<and>
           scaler_fit_transform ?lib (scaler (feature_engineer ?self)) M = Inr (s', M'))) \<and>
    (is_trained (model_trainer ?self) \<longrightarrow>
          (\<forall>m X. best_model (model_trainer ?self) = Some m \<longrightarrow>
             model_predict ?lib m X = Inl NotFittedError \<or>
             (\<exists>p. model_predict ?lib m X = Inr p \<and> length ?teams \<le> length p)))"
    by simp
  have "\<exists>rs self'. predict_placements ?lib ?self (\<lambda>i. 0) ?teams = Inr (rs, self')"
    by (rule mp [OF conjunct1 [OF inst] hyp])
  then obtain rs self' where r: "predict_placements ?lib ?self (\<lambda>i. 0) ?teams = Inr (rs, self')"
    by (elim exE)
  note char = conjunct2 [OF inst, rule_format, OF r]
  from char obtain feats df X p idx where
    rp: "raw_predictions ?lib (model_trainer ?self) df X = Inr p"
    and idx: "idx = sort_key (\<lambda>i. py_round (p ! i)) [0..<length ?teams]"
    and nth: "\<forall>k<length ?teams.
            rs ! k = (result_entry (?teams ! (idx ! k)) (feats ! (idx ! k)) (p ! (idx ! k)))
                       \<lparr>predicted_placement := int k + 1\<rparr>"
    by (elim exE conjE) (rule that, assumption+)
  have p: "p = [5 / 2, 6 / 5]"
    using rp by (simp add: raw_predictions_def trainer_predict_def)
  have r1: "py_round (5 / 2) = 2" "py_round (6 / 5) = 1"
    by (simp_all add: py_round_def Let_def)
  have upt2: "[0..<2] = [0, Suc 0]" by (simp add: upt_conv_Cons numeral_2_eq_2)
  have idx': "idx = [Suc 0, 0]"
    by (simp add: idx p upt2 r1)
  have "rs ! 0 = (result_entry (?teams ! (idx ! 0)) (feats ! (idx ! 0)) (p ! (idx ! 0)))
                       \<lparr>predicted_placement := int 0 + 1\<rparr>"
    "rs ! 1 = (result_entry (?teams ! (idx ! 1)) (feats ! (idx ! 1)) (p ! (idx ! 1)))
                       \<lparr>predicted_placement := int 1 + 1\<rparr>"
    using nth by simp_all
  then have "team (rs ! 0) = ''Bravo''" "predicted_placement (rs ! 0) = 1"
     "team (rs ! 1) = ''Alpha''" "predicted_placement (rs ! 1) = 2"
    by (simp_all add: idx' result_entry_def)
  then show ?thesis using r by blast
qed

lemma py_round_examples: "py_round (7 / 5) = 1" "py_round (6 / 5) = 1"
  by (simp_all add: py_round_def Let_def)

text \<open>
  Claim C1 as stated fails: Alpha, first in the input, has the raw score 1.4 and Bravo the
  smaller raw score 1.2; both round to 1, the sort on the rounded value keeps the input
  order, and Alpha gets placement 1, Bravo placement 2.
\<close>

theorem predict_placements_ranking_counterexample:
  "(6 / 5 :: real) < 7 / 5 \<and>
   predict_placements
     \<lparr>imputer_fit_transform = (\<lambda>(i::unit) df. Inr (i, map (\<lambda>r. [roster_stability r]) df)),
      imputer_transform = (\<lambda>i df. Inr (map (\<lambda>r. [roster_stability r]) df)),
      scaler_fit_transform = (\<lambda>(s::unit) M. Inr (s, M)),
      scaler_transform = (\<lambda>s M. Inr M),
      cross_val_score = (\<lambda>(m::unit) X y k. Inr (replicate k 0)),
      model_fit = (\<lambda>m X y. (None, m)),
      model_predict = (\<lambda>m X. Inr [7 / 5, 6 / 5])\<rparr>
     \<lparr>model_trainer = \<lparr>models = [(''ridge'', ())], best_model = Some (),
                        best_model_name = Some ''ridge'', is_trained = True\<rparr>,
      feature_engineer = \<lparr>scaler = (), imputer = (), is_fitted = False\<rparr>\<rparr>
     (\<lambda>i. 0)
     [\<lparr>team_ident = ''a'', team_name = ''Alpha'', team_region = ''BR'', players = [],
       formed_date = None, recent_matches = []\<rparr>,
      \<lparr>team_ident = ''b'', team_name = ''Bravo'', team_region = ''NA'', players = [],
       formed_date = None, recent_matches = []\<rparr>]
   = Inr ([\<lparr>team = ''Alpha'', predicted_placement = 1, region = ''BR'',
            confidence_score = 31 / 35,
            features = \<lparr>f_roster_stability = 1 / 2, f_avg_player_rating = 0,
                        f_win_rate = 1 / 2, f_recent_form = 1 / 2\<rparr>\<rparr>,
           \<lparr>team = ''Bravo'', predicted_placement = 2, region = ''NA'',
            confidence_score = 9 / 10,
            features = \<lparr>f_roster_stability = 1 / 2, f_avg_player_rating = 0,
                        f_win_rate = 1 / 2, f_recent_form = 1 / 2\<rparr>\<rparr>],
          \<lparr>model_trainer = \<lparr>models = [(''ridge'', ())], best_model = Some (),
                        best_model_name = Some ''ridge'', is_trained = True\<rparr>,
           feature_engineer = \<lparr>scaler = (), imputer = (), is_fitted = True\<rparr>\<rparr>)"
proof -
  let ?tA = "\<lparr>team_ident = ''a'', team_name = ''Alpha'', team_region = ''BR'', players = [],
       formed_date = None, recent_matches = []\<rparr>"
  let ?tB = "\<lparr>team_ident = ''b'', team_name = ''Bravo'', team_region = ''NA'', players = [],
       formed_date = None, recent_matches = []\<rparr>"
  have fA: "extract_team_features 0 ?tA = Inr \<lparr>roster_stability = 1 / 2, avg_player_rating = 0,
      avg_acs = 0, avg_kdr = 0, avg_kast = 0, win_rate = 1 / 2, recent_form = 1 / 2,
      strength_of_schedule = 1 / 2, tournament_results = 1 / 2, team_id = ''a'', target = None\<rparr>"
    by (simp add: extract_team_features_def calculate_roster_stability_def
        calculate_individual_performance_def calculate_team_performance_def
        calculate_tournament_performance_def)
  have fB: "extract_team_features 0 ?tB = Inr \<lparr>roster_stability = 1 / 2, avg_player_rating = 0,
      avg_acs = 0, avg_kdr = 0, avg_kast = 0, win_rate = 1 / 2, recent_form = 1 / 2,
      strength_of_schedule = 1 / 2, tournament_results = 1 / 2, team_id = ''b'', target = None\<rparr>"
    by (simp add: extract_team_features_def calculate_roster_stability_def
        calculate_individual_performance_def calculate_team_performance_def
        calculate_tournament_performance_def)
  have ef: "extract_features (\<lambda>i. 0) [?tA, ?tB] =
      Inr [\<lparr>roster_stability = 1 / 2, avg_player_rating = 0,
      avg_acs = 0, avg_kdr = 0, avg_kast = 0, win_rate = 1 / 2, recent_form = 1 / 2,
      strength_of_schedule = 1 / 2, tournament_results = 1 / 2, team_id = ''a'', target = None\<rparr>,
      \<lparr>roster_stability = 1 / 2, avg_player_rating = 0,
      avg_acs = 0, avg_kdr = 0, avg_kast = 0, win_rate = 1 / 2, recent_form = 1 / 2,
      strength_of_schedule = 1 / 2, tournament_results = 1 / 2, team_id = ''b'', target = None\<rparr>]"
    by (simp add: extract_features_def fA fB)
  have conf: "calculate_confidence (7 / 5) = 31 / 35" "calculate_confidence (6 / 5) = 9 / 10"
    by (simp_all add: calculate_confidence_def Let_def)
  show ?thesis
    by (simp add: predict_placements_def ef prepare_features_def raw_predictions_def
        trainer_predict_def adjust_placements_relabel result_entry_def py_round_examples conf)
qed

end
